theory Spec2Isabelle
  imports
    Complex_Main
    "HOL-Library.Char_ord"
    "HOL-Library.List_Lexorder"
    "HOL-Library.Sublist"
    "HOL-Library.AList"
begin

section \<open>Values of the program\<close>

text \<open>
  The service of \<^verbatim>\<open>app.py\<close> moves Python values between the request, the cache and
  the response as dictionaries that \<^verbatim>\<open>json.dumps\<close> writes and \<^verbatim>\<open>json.loads\<close> reads.
  A value is modelled by the JSON data model: \<open>JNull\<close> is Python's \<^verbatim>\<open>None\<close>, a
  \<^verbatim>\<open>dict\<close> is an association list in insertion order (keys are strings and occur once),
  a \<^verbatim>\<open>str\<close> is a \<open>string\<close> whose characters are code points below 256, and a
  \<^verbatim>\<open>float\<close> is the real number it denotes (rounding of float arithmetic is left out).
  An exception is the text \<^verbatim>\<open>str(e)\<close> of its message.
\<close>

datatype json =
    JNull
  | JBool bool
  | JInt int
  | JFloat real
  | JStr string
  | JList "json list"
  | JObj "(string \<times> json) list"

type_synonym dict = "(string \<times> json) list"

type_synonym exn = string

subsection \<open>\<^verbatim>\<open>str(int)\<close>\<close>

definition digit_char :: "nat \<Rightarrow> char" where
  "digit_char d = ''0123456789'' ! d"

fun digits :: "nat \<Rightarrow> string" where
  "digits n = (if n < 10 then [digit_char n] else digits (n div 10) @ [digit_char (n mod 10)])"

definition str_int :: "int \<Rightarrow> string" where
  "str_int i = (if i < 0 then CHR ''-'' # digits (nat (- i)) else digits (nat i))"

subsection \<open>\<^verbatim>\<open>json.dumps\<close>\<close>

text \<open>
  The encoder with Python's defaults: separators \<^verbatim>\<open>", "\<close> and \<^verbatim>\<open>": "\<close>,
  \<^verbatim>\<open>ensure_ascii=True\<close>. A string is written between double quotes; every character
  outside the printable ASCII range, the double quote and the backslash are escaped.
  The text of a float (\<^verbatim>\<open>float.__repr__\<close>) is a parameter \<open>float_repr\<close>.
  With \<^verbatim>\<open>sort_keys=True\<close> the items of every dictionary are written in the order of
  their keys.
\<close>

definition hex_char :: "nat \<Rightarrow> char" where
  "hex_char d = ''0123456789abcdef'' ! d"

definition escape_char :: "char \<Rightarrow> string" where
  "escape_char c =
     (if c = CHR 0x22 then [CHR 0x5C, CHR 0x22]
      else if c = CHR 0x5C then [CHR 0x5C, CHR 0x5C]
      else if c = CHR 0x0A then [CHR 0x5C, CHR ''n'']
      else if c = CHR 0x0D then [CHR 0x5C, CHR ''r'']
      else if c = CHR 0x09 then [CHR 0x5C, CHR ''t'']
      else if c = CHR 0x0C then [CHR 0x5C, CHR ''f'']
      else if c = CHR 0x08 then [CHR 0x5C, CHR ''b'']
      else if (of_char c :: nat) < 32 \<or> 126 < (of_char c :: nat) then
        [CHR 0x5C, CHR ''u'', CHR ''0'', CHR ''0'',
         hex_char (of_char c div 16), hex_char (of_char c mod 16)]
      else [c])"

definition encode_basestring_ascii :: "string \<Rightarrow> string" where
  "encode_basestring_ascii s = CHR 0x22 # concat (map escape_char s) @ [CHR 0x22]"

fun join :: "string \<Rightarrow> string list \<Rightarrow> string" where
  "join sep [] = []"
| "join sep [x] = x"
| "join sep (x # y # ys) = x @ sep @ join sep (y # ys)"

definition dumps_item :: "string \<times> string \<Rightarrow> string" where
  "dumps_item kv = encode_basestring_ascii (fst kv) @ '': '' @ snd kv"

fun json_dumps :: "(real \<Rightarrow> string) \<Rightarrow> bool \<Rightarrow> json \<Rightarrow> string" where
  "json_dumps float_repr sort_keys JNull = ''null''"
| "json_dumps float_repr sort_keys (JBool b) = (if b then ''true'' else ''false'')"
| "json_dumps float_repr sort_keys (JInt i) = str_int i"
| "json_dumps float_repr sort_keys (JFloat x) = float_repr x"
| "json_dumps float_repr sort_keys (JStr s) = encode_basestring_ascii s"
| "json_dumps float_repr sort_keys (JList vs) =
     ''['' @ join '', '' (map (json_dumps float_repr sort_keys) vs) @ '']''"
| "json_dumps float_repr sort_keys (JObj kvs) =
     ''{'' @ join '', ''
       (map dumps_item
         ((if sort_keys then sort_key fst else id)
           (map (\<lambda>kv. (fst kv, json_dumps float_repr sort_keys (snd kv))) kvs))) @ ''}''"

section \<open>The library the program calls\<close>

text \<open>
  What the program takes from its libraries and this development does not compute:
  \<^item> \<open>float_repr\<close>: the text \<^verbatim>\<open>json.dumps\<close> writes for a float;
  \<^item> \<open>md5_hexdigest\<close>: \<^verbatim>\<open>hashlib.md5(s.encode()).hexdigest()\<close> of a text \<open>s\<close>;
  \<^item> \<open>json_loads\<close>: \<^verbatim>\<open>json.loads\<close>, which raises (\<open>Inl\<close>) or returns a value;
  \<^item> \<open>lax_str\<close>, \<open>lax_int\<close>, \<open>lax_float\<close>, \<open>lax_bool\<close>: what the validation
    of a pydantic field does with a value that is not of the field's declared type:
    it converts the value or rejects it (\<open>None\<close>);
  \<^item> \<open>validation_error_text\<close>: the text of the \<^verbatim>\<open>ValidationError\<close> pydantic raises
    for a dictionary it rejects.
\<close>

record library =
  float_repr :: "real \<Rightarrow> string"
  md5_hexdigest :: "string \<Rightarrow> string"
  json_loads :: "string \<Rightarrow> exn + json"
  lax_str :: "json \<Rightarrow> string option"
  lax_int :: "json \<Rightarrow> int option"
  lax_float :: "json \<Rightarrow> real option"
  lax_bool :: "json \<Rightarrow> bool option"
  validation_error_text :: "dict \<Rightarrow> exn"

text \<open>
  What the cache key needs of \<open>float_repr\<close> on a set of floats: different floats have
  different texts, and no text contains a comma or an opening brace (Python writes a
  float with digits, a sign, a point and an exponent mark).
\<close>

definition plain_repr :: "(real \<Rightarrow> string) \<Rightarrow> real set \<Rightarrow> bool" where
  "plain_repr fr X \<longleftrightarrow>
     inj_on fr X \<and> (\<forall>x\<in>X. CHR '','' \<notin> set (fr x) \<and> CHR ''{'' \<notin> set (fr x))"

section \<open>Cache key\<close>

text \<open>
  \<^verbatim>\<open>get_cache_key(prompt, params)\<close>: the text hashed is the prompt, a colon and the
  parameters written with sorted keys; the key is the digest behind the prefix
  \<^verbatim>\<open>llm:\<close>.
\<close>

definition cache_data :: "library \<Rightarrow> string \<Rightarrow> dict \<Rightarrow> string" where
  "cache_data lib prompt params = prompt @ '':'' @ json_dumps (float_repr lib) True (JObj params)"

definition get_cache_key :: "library \<Rightarrow> string \<Rightarrow> dict \<Rightarrow> string" where
  "get_cache_key lib prompt params = ''llm:'' @ md5_hexdigest lib (cache_data lib prompt params)"

section \<open>Requests and responses\<close>

text \<open>
  The two pydantic models of \<^verbatim>\<open>app.py\<close>. A field takes a value of its declared type as
  it is; the constraints of \<^verbatim>\<open>Field\<close> are checked on the value after conversion.
\<close>

record GenerationRequest =
  prompt :: string
  max_new_tokens :: int
  temperature :: real
  top_p :: real
  do_sample :: bool
  stream :: bool

record GenerationResponse =
  prompt :: string
  generated_text :: string
  processing_time :: real
  device_used :: string
  cached :: bool
  tokens_generated :: int

definition str_field :: "library \<Rightarrow> json \<Rightarrow> string option" where
  "str_field lib v = (case v of JStr s \<Rightarrow> Some s | _ \<Rightarrow> lax_str lib v)"

definition int_field :: "library \<Rightarrow> json \<Rightarrow> int option" where
  "int_field lib v = (case v of JInt i \<Rightarrow> Some i | _ \<Rightarrow> lax_int lib v)"

definition float_field :: "library \<Rightarrow> json \<Rightarrow> real option" where
  "float_field lib v = (case v of JFloat x \<Rightarrow> Some x | _ \<Rightarrow> lax_float lib v)"

definition bool_field :: "library \<Rightarrow> json \<Rightarrow> bool option" where
  "bool_field lib v = (case v of JBool b \<Rightarrow> Some b | _ \<Rightarrow> lax_bool lib v)"

text \<open>A field with a default: the default when the key is absent.\<close>

definition with_default :: "'a \<Rightarrow> (json \<Rightarrow> 'a option) \<Rightarrow> json option \<Rightarrow> 'a option" where
  "with_default d field v = (case v of None \<Rightarrow> Some d | Some x \<Rightarrow> field x)"

text \<open>A required field: a validation error when the key is absent.\<close>

definition required :: "(json \<Rightarrow> 'a option) \<Rightarrow> json option \<Rightarrow> 'a option" where
  "required field v = (case v of None \<Rightarrow> None | Some x \<Rightarrow> field x)"

text \<open>
  \<^verbatim>\<open>GenerationRequest\<close> built from the JSON object of the request body; \<open>Inl\<close> is the
  \<^verbatim>\<open>ValidationError\<close> raised.
\<close>

definition GenerationRequest_init :: "library \<Rightarrow> dict \<Rightarrow> exn + GenerationRequest" where
  "GenerationRequest_init lib body =
     (case (required (str_field lib) (map_of body ''prompt''),
            with_default 100 (int_field lib) (map_of body ''max_new_tokens''),
            with_default 0.7 (float_field lib) (map_of body ''temperature''),
            with_default 0.9 (float_field lib) (map_of body ''top_p''),
            with_default True (bool_field lib) (map_of body ''do_sample''),
            with_default False (bool_field lib) (map_of body ''stream'')) of
        (Some p, Some n, Some t, Some tp, Some ds, Some st) \<Rightarrow>
          if 1 \<le> length p \<and> length p \<le> 2000 \<and> 1 \<le> n \<and> n \<le> 500
             \<and> 0.1 \<le> t \<and> t \<le> 2.0 \<and> 0.1 \<le> tp \<and> tp \<le> 1.0
          then Inr \<lparr>GenerationRequest.prompt = p, max_new_tokens = n, temperature = t,
                     top_p = tp, do_sample = ds, stream = st\<rparr>
          else Inl (validation_error_text lib body)
      | _ \<Rightarrow> Inl (validation_error_text lib body))"

text \<open>\<^verbatim>\<open>GenerationResponse(**d)\<close>: every field is required, other keys are ignored.\<close>

definition GenerationResponse_init :: "library \<Rightarrow> dict \<Rightarrow> exn + GenerationResponse" where
  "GenerationResponse_init lib d =
     (case (required (str_field lib) (map_of d ''prompt''),
            required (str_field lib) (map_of d ''generated_text''),
            required (float_field lib) (map_of d ''processing_time''),
            required (str_field lib) (map_of d ''device_used''),
            required (bool_field lib) (map_of d ''cached''),
            required (int_field lib) (map_of d ''tokens_generated'')) of
        (Some p, Some g, Some t, Some dv, Some c, Some n) \<Rightarrow>
          Inr \<lparr>GenerationResponse.prompt = p, generated_text = g, processing_time = t,
                device_used = dv, cached = c, tokens_generated = n\<rparr>
      | _ \<Rightarrow> Inl (validation_error_text lib d))"

section \<open>The process and what a request does\<close>

text \<open>
  The module's globals and collaborators, as a request sees them: the model and the
  tokenizer (\<open>None\<close> until \<^verbatim>\<open>initialize_model\<close> has set them), the text-generation
  pipeline, the device name, the Redis client (\<open>None\<close> when no cache is configured)
  and the clock, whose \<open>i\<close>-th reading by the request is \<open>clock p i\<close>.

  The Redis client is known by what its two calls answer: \<open>GET\<close> raises or returns the
  stored text (\<open>None\<close> for no entry), \<open>SETEX\<close> raises or returns. The pipeline returns
  the text \<^verbatim>\<open>text_generator(prompt, **gen_args)[0]["generated_text"]\<close> or raises.
\<close>

record redis =
  GET :: "string \<Rightarrow> exn + string option"
  SETEX :: "string \<Rightarrow> int \<Rightarrow> string \<Rightarrow> exn + unit"

record tokenizer_handle =
  eos_token_id :: "int option"
  encode :: "string \<Rightarrow> exn + int list"

record process =
  model :: "unit option"
  tokenizer :: "tokenizer_handle option"
  text_generator :: "string \<Rightarrow> dict \<Rightarrow> exn + string"
  DEVICE :: string
  redis_client :: "redis option"
  clock :: "nat \<Rightarrow> real"

text \<open>
  What a call does besides returning: log records (one constructor of \<open>logmsg\<close> for each
  logging statement of the request path), the calls made to the store, to the pipeline
  and to the tokenizer, in the order they happen.
\<close>

datatype level = INFO | WARNING | ERROR

datatype logmsg =
    CacheWriteFailed exn
  | CacheReadFailed exn
  | ServingFromCache
  | GeneratedTokens int real
  | GenerationError exn

datatype effect =
    Log level logmsg
  | RedisGet string
  | RedisSetex string int string
  | Generate string dict
  | Encode string

section \<open>Cache gateway\<close>

text \<open>
  \<^verbatim>\<open>cache_response(key, response, ttl)\<close>: with a client, one \<^verbatim>\<open>setex\<close> of the serialised
  response; an exception of the store is logged as a warning and dropped.
\<close>

definition cache_response :: "library \<Rightarrow> process \<Rightarrow> string \<Rightarrow> dict \<Rightarrow> int \<Rightarrow> effect list" where
  "cache_response lib p key response ttl =
     (case redis_client p of
        None \<Rightarrow> []
      | Some rc \<Rightarrow>
          (let payload = json_dumps (float_repr lib) False (JObj response) in
           case SETEX rc key ttl payload of
             Inr _ \<Rightarrow> [RedisSetex key ttl payload]
           | Inl e \<Rightarrow> [RedisSetex key ttl payload, Log WARNING (CacheWriteFailed e)]))"

text \<open>
  \<^verbatim>\<open>get_cached_response(key)\<close>: with a client, one \<^verbatim>\<open>get\<close>; a non-empty stored text
  is parsed and the value returned; an exception of the store or of the parser is
  logged as a warning; in every other case the result is \<^verbatim>\<open>None\<close> (\<open>JNull\<close>).
\<close>

definition get_cached_response :: "library \<Rightarrow> process \<Rightarrow> string \<Rightarrow> json \<times> effect list" where
  "get_cached_response lib p key =
     (case redis_client p of
        None \<Rightarrow> (JNull, [])
      | Some rc \<Rightarrow>
          (case GET rc key of
             Inl e \<Rightarrow> (JNull, [RedisGet key, Log WARNING (CacheReadFailed e)])
           | Inr None \<Rightarrow> (JNull, [RedisGet key])
           | Inr (Some text) \<Rightarrow>
               if text = [] then (JNull, [RedisGet key])
               else (case json_loads lib text of
                       Inl e \<Rightarrow> (JNull, [RedisGet key, Log WARNING (CacheReadFailed e)])
                     | Inr v \<Rightarrow> (v, [RedisGet key]))))"

section \<open>The request handler\<close>

text \<open>Truth value of a Python value, as \<^verbatim>\<open>if cached:\<close> tests it.\<close>

fun truthy :: "json \<Rightarrow> bool" where
  "truthy JNull = False"
| "truthy (JBool b) = b"
| "truthy (JInt i) = (i \<noteq> 0)"
| "truthy (JFloat x) = (x \<noteq> 0)"
| "truthy (JStr s) = (s \<noteq> [])"
| "truthy (JList vs) = (vs \<noteq> [])"
| "truthy (JObj kvs) = (kvs \<noteq> [])"

text \<open>\<^verbatim>\<open>str(e).lower()\<close> on code points below 256, and the test of the \<^verbatim>\<open>except\<close> clause.\<close>

definition lower_char :: "char \<Rightarrow> char" where
  "lower_char c =
     (let n = of_char c :: nat in
      if (65 \<le> n \<and> n \<le> 90) \<or> (192 \<le> n \<and> n \<le> 222 \<and> n \<noteq> 215) then char_of (n + 32) else c)"

definition lower :: "string \<Rightarrow> string" where
  "lower s = map lower_char s"

text \<open>
  How a request ends when it does not return a response: an \<^verbatim>\<open>HTTPException\<close> raised by
  the handler, a request body the framework rejects before it calls the handler
  (status 422), or an exception the handler does not catch (status 500 from the
  framework).
\<close>

datatype failure =
    HTTPException (status_code: nat) (detail: string)
  | RequestValidationError exn
  | Uncaught exn

datatype task = CacheResponseTask string dict int

record reply =
  result :: "failure + GenerationResponse"
  background_tasks :: "task list"
  effects :: "effect list"

text \<open>The \<^verbatim>\<open>except Exception as e\<close> clause of \<^verbatim>\<open>generate_text\<close>.\<close>

definition generation_error :: "exn \<Rightarrow> failure" where
  "generation_error e =
     (if sublist ''out of memory'' (lower e) then HTTPException 507 ''GPU memory insufficient''
      else HTTPException 500 (''Generation failed: '' @ e))"

definition except_clause :: "exn \<Rightarrow> task list \<Rightarrow> effect list \<Rightarrow> reply" where
  "except_clause e tasks fx =
     \<lparr>result = Inl (generation_error e), background_tasks = tasks,
      effects = fx @ [Log ERROR (GenerationError e)]\<rparr>"

text \<open>
  The \<^verbatim>\<open>if cached:\<close> block. Item assignment with a string key needs a dictionary:
  on any other value it raises this \<^verbatim>\<open>TypeError\<close>, which nothing catches.
\<close>

definition no_item_assignment :: "string \<Rightarrow> exn" where
  "no_item_assignment ty = CHR 0x27 # ty @ CHR 0x27 # '' object does not support item assignment''"

fun setitem_error :: "json \<Rightarrow> exn" where
  "setitem_error (JList vs) = ''list indices must be integers or slices, not str''"
| "setitem_error (JStr s) = no_item_assignment ''str''"
| "setitem_error (JInt i) = no_item_assignment ''int''"
| "setitem_error (JFloat x) = no_item_assignment ''float''"
| "setitem_error (JBool b) = no_item_assignment ''bool''"
| "setitem_error v = no_item_assignment ''NoneType''"

definition serve_cached :: "library \<Rightarrow> real \<Rightarrow> json \<Rightarrow> effect list \<Rightarrow> reply" where
  "serve_cached lib elapsed hit fx =
     (case hit of
        JObj d \<Rightarrow>
          (let d1 = AList.update ''processing_time'' (JFloat elapsed) d;
               d2 = AList.update ''cached'' (JBool True) d1 in
           case GenerationResponse_init lib d2 of
             Inr response \<Rightarrow>
               \<lparr>result = Inr response, background_tasks = [],
                effects = fx @ [Log INFO ServingFromCache]\<rparr>
           | Inl e \<Rightarrow>
               \<lparr>result = Inl (Uncaught e), background_tasks = [],
                effects = fx @ [Log INFO ServingFromCache]\<rparr>)
      | _ \<Rightarrow>
          \<lparr>result = Inl (Uncaught (setitem_error hit)), background_tasks = [],
           effects = fx @ [Log INFO ServingFromCache]\<rparr>)"

definition cache_params_of :: "GenerationRequest \<Rightarrow> dict" where
  "cache_params_of request =
     [(''max_new_tokens'', JInt (max_new_tokens request)),
      (''temperature'', JFloat (temperature request)),
      (''top_p'', JFloat (top_p request)),
      (''do_sample'', JBool (do_sample request))]"

definition gen_args_of :: "tokenizer_handle \<Rightarrow> GenerationRequest \<Rightarrow> dict" where
  "gen_args_of tok request =
     [(''max_new_tokens'', JInt (max_new_tokens request)),
      (''temperature'', JFloat (temperature request)),
      (''top_p'', JFloat (top_p request)),
      (''do_sample'', JBool (do_sample request)),
      (''pad_token_id'', (case eos_token_id tok of None \<Rightarrow> JNull | Some i \<Rightarrow> JInt i)),
      (''return_full_text'', JBool False)]"

text \<open>The \<^verbatim>\<open>try\<close> block of \<^verbatim>\<open>generate_text\<close>, entered on a cache miss.\<close>

definition try_generate ::
  "library \<Rightarrow> process \<Rightarrow> tokenizer_handle \<Rightarrow> GenerationRequest \<Rightarrow> real \<Rightarrow> string \<Rightarrow>
     effect list \<Rightarrow> reply" where
  "try_generate lib p tok request start cache_key fx =
     (let gen_args = gen_args_of tok request;
          fx1 = fx @ [Generate (GenerationRequest.prompt request) gen_args] in
      case text_generator p (GenerationRequest.prompt request) gen_args of
        Inl e \<Rightarrow> except_clause e [] fx1
      | Inr text \<Rightarrow>
          (let fx2 = fx1 @ [Encode text] in
           case encode tok text of
             Inl e \<Rightarrow> except_clause e [] fx2
           | Inr ids \<Rightarrow>
               (let tokens = int (length ids);
                    elapsed = clock p 1 - start;
                    response =
                      [(''prompt'', JStr (GenerationRequest.prompt request)),
                       (''generated_text'', JStr text),
                       (''processing_time'', JFloat elapsed),
                       (''device_used'', JStr (DEVICE p)),
                       (''cached'', JBool False),
                       (''tokens_generated'', JInt tokens)];
                    tasks = [CacheResponseTask cache_key response 3600];
                    fx3 = fx2 @ [Log INFO (GeneratedTokens tokens elapsed)] in
                case GenerationResponse_init lib response of
                  Inr r \<Rightarrow> \<lparr>result = Inr r, background_tasks = tasks, effects = fx3\<rparr>
                | Inl e \<Rightarrow> except_clause e tasks fx3)))"

text \<open>\<^verbatim>\<open>generate_text(request, background_tasks)\<close>, the handler of \<^verbatim>\<open>POST /generate\<close>.\<close>

definition generate_text :: "library \<Rightarrow> process \<Rightarrow> GenerationRequest \<Rightarrow> reply" where
  "generate_text lib p request =
     (let start = clock p 0 in
      case (model p, tokenizer p) of
        (Some _, Some tok) \<Rightarrow>
          (let cache_key = get_cache_key lib (GenerationRequest.prompt request) (cache_params_of request);
               (hit, fx) = get_cached_response lib p cache_key in
           if truthy hit then serve_cached lib (clock p 1 - start) hit fx
           else try_generate lib p tok request start cache_key fx)
      | _ \<Rightarrow>
          \<lparr>result = Inl (HTTPException 503 ''Model not loaded''), background_tasks = [],
           effects = []\<rparr>)"

text \<open>
  The route: the framework builds the \<^verbatim>\<open>GenerationRequest\<close> from the body and calls the
  handler only with a valid one.
\<close>

definition post_generate :: "library \<Rightarrow> process \<Rightarrow> dict \<Rightarrow> reply" where
  "post_generate lib p body =
     (case GenerationRequest_init lib body of
        Inl e \<Rightarrow> \<lparr>result = Inl (RequestValidationError e), background_tasks = [], effects = []\<rparr>
      | Inr request \<Rightarrow> generate_text lib p request)"

text \<open>The framework runs the tasks of a reply after the response has been sent.\<close>

fun run_task :: "library \<Rightarrow> process \<Rightarrow> task \<Rightarrow> effect list" where
  "run_task lib p (CacheResponseTask key response ttl) = cache_response lib p key response ttl"

section \<open>Concrete instances\<close>

text \<open>
  A small library and process on which the properties below are instantiated: a store
  that refuses every call, a store that answers every key with one entry, and a
  pipeline that fails on two prompts.
\<close>

definition example_library :: library where
  "example_library =
     \<lparr>float_repr = (\<lambda>x. if x = 0.7 then ''0.7'' else if x = 0.9 then ''0.9'' else ''1.5''),
      md5_hexdigest = (\<lambda>s. s),
      json_loads = (\<lambda>s. if s = ''entry'' then
          Inr (JObj [(''prompt'', JStr ''ping''), (''generated_text'', JStr ''pong''),
                     (''processing_time'', JFloat 3), (''device_used'', JStr ''cpu''),
                     (''cached'', JBool False), (''tokens_generated'', JInt 1)])
        else Inl ''Expecting value''),
      lax_str = (\<lambda>v. None), lax_int = (\<lambda>v. None), lax_float = (\<lambda>v. None),
      lax_bool = (\<lambda>v. None),
      validation_error_text = (\<lambda>d. ''validation error'')\<rparr>"

definition example_tokenizer :: tokenizer_handle where
  "example_tokenizer = \<lparr>eos_token_id = Some 50256, encode = (\<lambda>s. Inr (map of_char s))\<rparr>"

definition store_down :: redis where
  "store_down = \<lparr>GET = (\<lambda>k. Inl ''Connection refused''), SETEX = (\<lambda>k t v. Inl ''Connection refused'')\<rparr>"

definition store_with_entry :: redis where
  "store_with_entry = \<lparr>GET = (\<lambda>k. Inr (Some ''entry'')), SETEX = (\<lambda>k t v. Inr ())\<rparr>"

definition store_garbled :: redis where
  "store_garbled = \<lparr>GET = (\<lambda>k. Inr (Some ''{not json'')), SETEX = (\<lambda>k t v. Inr ())\<rparr>"

definition example_process :: process where
  "example_process =
     \<lparr>model = Some (), tokenizer = Some example_tokenizer,
      text_generator = (\<lambda>s args. if s = ''boom'' then Inl ''CUDA Out Of Memory''
                                 else if s = ''bad'' then Inl ''index error'' else Inr ''pong''),
      DEVICE = ''cpu'', redis_client = Some store_down,
      clock = (\<lambda>i. if i = 0 then 10 else 12)\<rparr>"

definition example_request :: GenerationRequest where
  "example_request =
     \<lparr>GenerationRequest.prompt = ''ping'', max_new_tokens = 100, temperature = 0.7,
      top_p = 0.9, do_sample = True, stream = False\<rparr>"

section \<open>Properties\<close>

subsection \<open>Auxiliary facts\<close>

lemma field_declared [simp]:
  "str_field lib (JStr s) = Some s"
  "int_field lib (JInt i) = Some i"
  "float_field lib (JFloat x) = Some x"
  "bool_field lib (JBool b) = Some b"
  by (simp_all add: str_field_def int_field_def float_field_def bool_field_def)

lemma required_simps [simp]:
  "required f None = None"
  "required f (Some v) = f v"
  by (simp_all add: required_def)

lemma with_default_simps [simp]:
  "with_default d f None = Some d"
  "with_default d f (Some v) = f v"
  by (simp_all add: with_default_def)

lemma GenerationResponse_init_assembled:
  "GenerationResponse_init lib
     [(''prompt'', JStr a), (''generated_text'', JStr b), (''processing_time'', JFloat c),
      (''device_used'', JStr d), (''cached'', JBool e), (''tokens_generated'', JInt f)]
   = Inr \<lparr>GenerationResponse.prompt = a, generated_text = b, processing_time = c,
           device_used = d, cached = e, tokens_generated = f\<rparr>"
  by (simp add: GenerationResponse_init_def)

lemma GenerationResponse_init_Inr:
  "GenerationResponse_init lib d = Inr r \<longleftrightarrow>
     required (str_field lib) (map_of d ''prompt'') = Some (GenerationResponse.prompt r) \<and>
     required (str_field lib) (map_of d ''generated_text'') = Some (generated_text r) \<and>
     required (float_field lib) (map_of d ''processing_time'') = Some (processing_time r) \<and>
     required (str_field lib) (map_of d ''device_used'') = Some (device_used r) \<and>
     required (bool_field lib) (map_of d ''cached'') = Some (cached r) \<and>
     required (int_field lib) (map_of d ''tokens_generated'') = Some (tokens_generated r)"
  by (cases r) (auto simp: GenerationResponse_init_def split: option.splits)

lemma generate_text_unready:
  "model p = None \<or> tokenizer p = None \<Longrightarrow>
   generate_text lib p request =
     \<lparr>result = Inl (HTTPException 503 ''Model not loaded''), background_tasks = [], effects = []\<rparr>"
  by (auto simp: generate_text_def Let_def split: option.splits)

lemma generate_text_ready:
  "model p = Some m \<Longrightarrow> tokenizer p = Some tok \<Longrightarrow>
   get_cached_response lib p
     (get_cache_key lib (GenerationRequest.prompt request) (cache_params_of request)) = (hit, fx) \<Longrightarrow>
   generate_text lib p request =
     (if truthy hit then serve_cached lib (clock p 1 - clock p 0) hit fx
      else try_generate lib p tok request (clock p 0)
             (get_cache_key lib (GenerationRequest.prompt request) (cache_params_of request)) fx)"
  by (simp add: generate_text_def Let_def)

lemma get_cached_response_effects:
  "set (snd (get_cached_response lib p key)) \<subseteq> {RedisGet key} \<union> range (Log WARNING)"
  by (auto simp: get_cached_response_def split: option.splits sum.splits)

lemma try_generate_raise:
  "text_generator p (GenerationRequest.prompt request) (gen_args_of tok request) = Inl e \<Longrightarrow>
   try_generate lib p tok request start key fx =
     except_clause e [] (fx @ [Generate (GenerationRequest.prompt request) (gen_args_of tok request)])"
  by (simp add: try_generate_def)

lemma try_generate_encode_raise:
  "text_generator p (GenerationRequest.prompt request) (gen_args_of tok request) = Inr text \<Longrightarrow>
   encode tok text = Inl e \<Longrightarrow>
   try_generate lib p tok request start key fx =
     except_clause e [] (fx @ [Generate (GenerationRequest.prompt request) (gen_args_of tok request), Encode text])"
  by (simp add: try_generate_def)

lemma try_generate_ok:
  "text_generator p (GenerationRequest.prompt request) (gen_args_of tok request) = Inr text \<Longrightarrow>
   encode tok text = Inr ids \<Longrightarrow>
   try_generate lib p tok request start key fx =
     \<lparr>result = Inr \<lparr>GenerationResponse.prompt = GenerationRequest.prompt request,
                      generated_text = text, processing_time = clock p 1 - start,
                      device_used = DEVICE p, cached = False,
                      tokens_generated = int (length ids)\<rparr>,
      background_tasks =
        [CacheResponseTask key
           [(''prompt'', JStr (GenerationRequest.prompt request)),
            (''generated_text'', JStr text),
            (''processing_time'', JFloat (clock p 1 - start)),
            (''device_used'', JStr (DEVICE p)),
            (''cached'', JBool False),
            (''tokens_generated'', JInt (int (length ids)))] 3600],
      effects = fx @ [Generate (GenerationRequest.prompt request) (gen_args_of tok request),
                      Encode text, Log INFO (GeneratedTokens (int (length ids)) (clock p 1 - start))]\<rparr>"
  by (simp add: try_generate_def Let_def GenerationResponse_init_assembled)

lemma serve_cached_no_tasks: "background_tasks (serve_cached lib t hit fx) = []"
  by (simp add: serve_cached_def Let_def split: json.splits sum.splits)

lemma serve_cached_effects: "effects (serve_cached lib t hit fx) = fx @ [Log INFO ServingFromCache]"
  by (simp add: serve_cached_def Let_def split: json.splits sum.splits)

lemma lower_append: "lower (a @ b) = lower a @ lower b"
  by (simp add: lower_def)

lemma map_eq_append3:
  assumes "map f e = a @ w @ b"
  shows "\<exists>pre mid post. e = pre @ mid @ post \<and> map f mid = w"
proof -
  from assms obtain pre rest where e: "e = pre @ rest" and rest: "w @ b = map f rest"
    using map_eq_append_conv [of f e a "w @ b"] by blast
  from rest obtain mid post where "rest = mid @ post" "w = map f mid"
    using append_eq_map_conv [of w b f rest] by blast
  with e show ?thesis by blast
qed

lemma sublist_lower_iff:
  "sublist w (lower e) \<longleftrightarrow> (\<exists>pre mid post. e = pre @ mid @ post \<and> lower mid = w)"
proof
  assume "sublist w (lower e)"
  then obtain a b where "map lower_char e = a @ w @ b"
    unfolding sublist_def lower_def by blast
  then show "\<exists>pre mid post. e = pre @ mid @ post \<and> lower mid = w"
    unfolding lower_def by (rule map_eq_append3)
next
  assume "\<exists>pre mid post. e = pre @ mid @ post \<and> lower mid = w"
  then obtain pre mid post where "e = pre @ mid @ post" "lower mid = w" by blast
  then have "lower e = lower pre @ w @ lower post"
    by (simp add: lower_append)
  then show "sublist w (lower e)"
    unfolding sublist_def by blast
qed

lemmas example_defs = example_library_def example_tokenizer_def store_down_def
  store_with_entry_def example_process_def example_request_def

lemma ex_miss:
  "get_cached_response example_library example_process key
     = (JNull, [RedisGet key, Log WARNING (CacheReadFailed ''Connection refused'')])"
  by (simp add: get_cached_response_def example_defs)

subsection \<open>Engine not initialised\<close>

text \<open>
  C10. When the model or the tokenizer is \<^verbatim>\<open>None\<close>, the request ends with status 503
  before the cache is consulted: the handler makes no call at all (in particular no
  \<^verbatim>\<open>GET\<close> on the store) and schedules nothing, whatever the store holds.
\<close>

theorem unready_engine_skips_cache:
  assumes "model p = None \<or> tokenizer p = None"
  shows "result (generate_text lib p request) = Inl (HTTPException 503 ''Model not loaded'')
       \<and> effects (generate_text lib p request) = []
       \<and> (\<forall>key. RedisGet key \<notin> set (effects (generate_text lib p request)))
       \<and> background_tasks (generate_text lib p request) = []"
  using assms by (simp add: generate_text_unready)

theorem unready_engine_skips_cache_witness:
  "(model (example_process\<lparr>model := None, redis_client := Some store_with_entry\<rparr>) = None
     \<or> tokenizer (example_process\<lparr>model := None, redis_client := Some store_with_entry\<rparr>) = None)
   \<and> result (generate_text example_library
         (example_process\<lparr>model := None, redis_client := Some store_with_entry\<rparr>) example_request)
       = Inl (HTTPException 503 ''Model not loaded'')
   \<and> effects (generate_text example_library
         (example_process\<lparr>model := None, redis_client := Some store_with_entry\<rparr>) example_request) = []"
  using unready_engine_skips_cache
    [of "example_process\<lparr>model := None, redis_client := Some store_with_entry\<rparr>"
        example_library example_request]
  by simp

subsection \<open>Error classification\<close>

text \<open>
  C3. The error outcome of a request: status 503 when the engine is not initialised;
  when generation raises an exception with message \<open>e\<close> (from the pipeline or from
  the tokenizer), status 507 if \<open>e\<close> contains \<^verbatim>\<open>out of memory\<close> in any casing, and
  otherwise status 500 with a detail that carries \<open>e\<close>.
\<close>

theorem error_classification:
  "(model p = None \<or> tokenizer p = None \<longrightarrow>
      result (generate_text lib p request) = Inl (HTTPException 503 ''Model not loaded''))
   \<and> (model p \<noteq> None \<and> tokenizer p = Some tok
        \<and> \<not> truthy (fst (get_cached_response lib p
              (get_cache_key lib (GenerationRequest.prompt request) (cache_params_of request))))
        \<and> (text_generator p (GenerationRequest.prompt request) (gen_args_of tok request) = Inl e
            \<or> (\<exists>text. text_generator p (GenerationRequest.prompt request) (gen_args_of tok request) = Inr text
                  \<and> encode tok text = Inl e)) \<longrightarrow>
      ((\<exists>pre mid post. e = pre @ mid @ post \<and> lower mid = ''out of memory'') \<longrightarrow>
          result (generate_text lib p request) = Inl (HTTPException 507 ''GPU memory insufficient''))
      \<and> (\<not> (\<exists>pre mid post. e = pre @ mid @ post \<and> lower mid = ''out of memory'') \<longrightarrow>
          result (generate_text lib p request) = Inl (HTTPException 500 (''Generation failed: '' @ e))))"
proof (intro conjI impI)
  assume "model p = None \<or> tokenizer p = None"
  then show "result (generate_text lib p request) = Inl (HTTPException 503 ''Model not loaded'')"
    by (simp add: generate_text_unready)
next
  let ?key = "get_cache_key lib (GenerationRequest.prompt request) (cache_params_of request)"
  assume h: "model p \<noteq> None \<and> tokenizer p = Some tok
        \<and> \<not> truthy (fst (get_cached_response lib p ?key))
        \<and> (text_generator p (GenerationRequest.prompt request) (gen_args_of tok request) = Inl e
            \<or> (\<exists>text. text_generator p (GenerationRequest.prompt request) (gen_args_of tok request) = Inr text
                  \<and> encode tok text = Inl e))"
  obtain hit fx where g: "get_cached_response lib p ?key = (hit, fx)"
    by (cases "get_cached_response lib p ?key")
  from h obtain m where m: "model p = Some m" by auto
  from h g have miss: "\<not> truthy hit" by simp
  from h obtain fx' where
    "try_generate lib p tok request (clock p 0) ?key fx = except_clause e [] fx'"
    by (auto simp: try_generate_raise try_generate_encode_raise)
  with m h miss g have res: "result (generate_text lib p request) = Inl (generation_error e)"
    by (simp add: generate_text_ready except_clause_def)
  {
    assume "\<exists>pre mid post. e = pre @ mid @ post \<and> lower mid = ''out of memory''"
    then have "sublist ''out of memory'' (lower e)"
      using sublist_lower_iff [of "''out of memory''" e] by blast
    with res show "result (generate_text lib p request) = Inl (HTTPException 507 ''GPU memory insufficient'')"
      by (simp add: generation_error_def)
  }
  {
    assume "\<not> (\<exists>pre mid post. e = pre @ mid @ post \<and> lower mid = ''out of memory'')"
    then have "\<not> sublist ''out of memory'' (lower e)"
      using sublist_lower_iff [of "''out of memory''" e] by blast
    with res show "result (generate_text lib p request) = Inl (HTTPException 500 (''Generation failed: '' @ e))"
      by (simp add: generation_error_def)
  }
qed

theorem error_classification_witness:
  "result (generate_text example_library example_process
      (example_request\<lparr>GenerationRequest.prompt := ''boom''\<rparr>))
     = Inl (HTTPException 507 ''GPU memory insufficient'')
   \<and> result (generate_text example_library example_process
      (example_request\<lparr>GenerationRequest.prompt := ''bad''\<rparr>))
     = Inl (HTTPException 500 ''Generation failed: index error'')
   \<and> result (generate_text example_library (example_process\<lparr>tokenizer := None\<rparr>) example_request)
     = Inl (HTTPException 503 ''Model not loaded'')"
proof -
  have oom: "\<exists>pre mid post. ''CUDA Out Of Memory'' = pre @ mid @ post \<and> lower mid = ''out of memory''"
  proof (intro exI conjI)
    show "''CUDA Out Of Memory'' = ''CUDA '' @ ''Out Of Memory'' @ []" by simp
    show "lower ''Out Of Memory'' = ''out of memory''" by code_simp
  qed
  have other: "\<not> (\<exists>pre mid post. ''index error'' = pre @ mid @ post \<and> lower mid = ''out of memory'')"
  proof -
    have "\<not> sublist ''out of memory'' (lower ''index error'')" by code_simp
    then show ?thesis using sublist_lower_iff [of "''out of memory''" "''index error''"] by blast
  qed
  show ?thesis
    using oom other
      error_classification [of example_process example_library
        "example_request\<lparr>GenerationRequest.prompt := ''boom''\<rparr>" example_tokenizer "''CUDA Out Of Memory''"]
      error_classification [of example_process example_library
        "example_request\<lparr>GenerationRequest.prompt := ''bad''\<rparr>" example_tokenizer "''index error''"]
      error_classification [of "example_process\<lparr>tokenizer := None\<rparr>" example_library
        example_request]
    by (simp add: ex_miss) (simp add: example_defs)
qed

subsection \<open>More auxiliary facts\<close>

lemma get_cached_response_no_setex:
  "RedisSetex k t v \<notin> set (snd (get_cached_response lib p key))"
  using get_cached_response_effects [of lib p key] by auto

lemma except_clause_sel [simp]:
  "result (except_clause e tasks fx) = Inl (generation_error e)"
  "background_tasks (except_clause e tasks fx) = tasks"
  "effects (except_clause e tasks fx) = fx @ [Log ERROR (GenerationError e)]"
  by (simp_all add: except_clause_def)

lemma generation_outcome_cases:
  obtains (raised) e where
      "text_generator p (GenerationRequest.prompt request) (gen_args_of tok request) = Inl e"
  | (encode_raised) out e where
      "text_generator p (GenerationRequest.prompt request) (gen_args_of tok request) = Inr out"
      "encode tok out = Inl e"
  | (generated) out ids where
      "text_generator p (GenerationRequest.prompt request) (gen_args_of tok request) = Inr out"
      "encode tok out = Inr ids"
proof (cases "text_generator p (GenerationRequest.prompt request) (gen_args_of tok request)")
  case (Inl e)
  then show ?thesis by (rule raised)
next
  case (Inr out)
  then show ?thesis
    by (cases "encode tok out") (auto intro: encode_raised generated)
qed

lemma get_cached_response_SETEX:
  "get_cached_response lib (p\<lparr>redis_client := map_option (SETEX_update f) (redis_client p)\<rparr>) key
     = get_cached_response lib p key"
  by (cases "redis_client p") (simp_all add: get_cached_response_def)

lemma try_generate_redis_client:
  "try_generate lib (p\<lparr>redis_client := c\<rparr>) tok request start key fx
     = try_generate lib p tok request start key fx"
  by (simp add: try_generate_def Let_def cong: sum.case_cong)

lemma generate_text_SETEX:
  "generate_text lib (p\<lparr>redis_client := map_option (SETEX_update f) (redis_client p)\<rparr>) request
     = generate_text lib p request"
  by (simp add: generate_text_def Let_def get_cached_response_SETEX try_generate_redis_client
        split: option.splits prod.splits)

lemma cache_response_once:
  "redis_client p = Some rc \<Longrightarrow>
   \<exists>rest. cache_response lib p key response ttl
            = RedisSetex key ttl (json_dumps (float_repr lib) False (JObj response)) # rest
        \<and> (\<forall>k t v. RedisSetex k t v \<notin> set rest)"
  by (simp add: cache_response_def Let_def split: sum.splits)

lemma example_ready:
  "model example_process = Some ()" "tokenizer example_process = Some example_tokenizer"
  by (simp_all add: example_process_def)

lemma example_generated:
  "generate_text example_library example_process example_request =
     \<lparr>result = Inr \<lparr>GenerationResponse.prompt = ''ping'', generated_text = ''pong'',
                      processing_time = 2, device_used = ''cpu'', cached = False,
                      tokens_generated = 4\<rparr>,
      background_tasks =
        [CacheResponseTask
           (get_cache_key example_library ''ping'' (cache_params_of example_request))
           [(''prompt'', JStr ''ping''), (''generated_text'', JStr ''pong''),
            (''processing_time'', JFloat 2), (''device_used'', JStr ''cpu''),
            (''cached'', JBool False), (''tokens_generated'', JInt 4)] 3600],
      effects =
        [RedisGet (get_cache_key example_library ''ping'' (cache_params_of example_request)),
         Log WARNING (CacheReadFailed ''Connection refused''),
         Generate ''ping'' (gen_args_of example_tokenizer example_request),
         Encode ''pong'', Log INFO (GeneratedTokens 4 2)]\<rparr>"
proof -
  have req: "GenerationRequest.prompt example_request = ''ping''"
    by (simp add: example_request_def)
  have gen: "text_generator example_process (GenerationRequest.prompt example_request)
               (gen_args_of example_tokenizer example_request) = Inr ''pong''"
    by (simp add: example_process_def example_request_def)
  have enc: "encode example_tokenizer ''pong'' = Inr (map of_char ''pong'')"
    by (simp add: example_tokenizer_def)
  have clk: "clock example_process (Suc 0) = 12" "clock example_process 0 = 10"
      "DEVICE example_process = ''cpu''"
    by (simp_all add: example_process_def)
  show ?thesis
    using generate_text_ready [OF example_ready ex_miss, of example_request]
      try_generate_ok [OF gen enc, of example_library "clock example_process 0"]
    by (simp add: req clk)
qed

subsection \<open>No cache write when generation fails\<close>

text \<open>
  C6. When the pipeline or the tokenizer raises, the reply carries no background task
  and the handler has made no \<^verbatim>\<open>SETEX\<close> call: no cache write is scheduled or
  performed. Conversely, a reply that carries a task comes from a generation that
  returned, and is a response.
\<close>

theorem no_cache_write_on_failure:
  assumes ready: "model p \<noteq> None" "tokenizer p = Some tok"
  shows "((text_generator p (GenerationRequest.prompt request) (gen_args_of tok request) = Inl e
           \<or> (\<exists>text. text_generator p (GenerationRequest.prompt request) (gen_args_of tok request) = Inr text
                 \<and> encode tok text = Inl e)) \<longrightarrow>
          background_tasks (generate_text lib p request) = []
          \<and> (\<forall>k t v. RedisSetex k t v \<notin> set (effects (generate_text lib p request))))
       \<and> (background_tasks (generate_text lib p request) \<noteq> [] \<longrightarrow>
          (\<exists>text ids response.
              text_generator p (GenerationRequest.prompt request) (gen_args_of tok request) = Inr text
            \<and> encode tok text = Inr ids
            \<and> result (generate_text lib p request) = Inr response
            \<and> generated_text response = text))"
proof -
  let ?key = "get_cache_key lib (GenerationRequest.prompt request) (cache_params_of request)"
  obtain hit fx where g: "get_cached_response lib p ?key = (hit, fx)"
    by (cases "get_cached_response lib p ?key")
  from ready obtain m where m: "model p = Some m" by auto
  note gt = generate_text_ready [OF m ready(2) g]
  have fx: "RedisSetex k t v \<notin> set fx" for k t v
    using get_cached_response_no_setex [of k t v lib p ?key] g by simp
  show ?thesis
  proof (cases "truthy hit")
    case True
    then show ?thesis
      using fx by (simp add: gt serve_cached_no_tasks serve_cached_effects)
  next
    case False
    show ?thesis
    proof (cases rule: generation_outcome_cases [of p request tok])
      case (raised e')
      with False fx show ?thesis
        by (simp add: gt try_generate_raise)
    next
      case (encode_raised out e')
      with False fx show ?thesis
        by (simp add: gt try_generate_encode_raise)
    next
      case (generated out ids)
      with False show ?thesis
        by (simp add: gt try_generate_ok)
    qed
  qed
qed

theorem no_cache_write_on_failure_witness:
  "model example_process \<noteq> None \<and> tokenizer example_process = Some example_tokenizer
   \<and> text_generator example_process ''boom''
        (gen_args_of example_tokenizer (example_request\<lparr>GenerationRequest.prompt := ''boom''\<rparr>))
      = Inl ''CUDA Out Of Memory''
   \<and> background_tasks (generate_text example_library example_process
        (example_request\<lparr>GenerationRequest.prompt := ''boom''\<rparr>)) = []
   \<and> background_tasks (generate_text example_library example_process example_request) \<noteq> []
   \<and> (\<exists>response. result (generate_text example_library example_process example_request) = Inr response
        \<and> generated_text response = ''pong'')"
proof -
  have boom: "text_generator example_process ''boom''
        (gen_args_of example_tokenizer (example_request\<lparr>GenerationRequest.prompt := ''boom''\<rparr>))
      = Inl ''CUDA Out Of Memory''"
    by (simp add: example_process_def)
  show ?thesis
    using boom
      no_cache_write_on_failure [of example_process example_tokenizer
        "example_request\<lparr>GenerationRequest.prompt := ''boom''\<rparr>" "''CUDA Out Of Memory''" example_library]
      no_cache_write_on_failure [of example_process example_tokenizer example_request "''''" example_library]
    by (simp add: example_ready example_generated)
qed

subsection \<open>Write-behind on a successful miss\<close>

text \<open>
  C7. On a cache miss whose generation returns, the reply is the assembled response
  and schedules exactly one task: the write of the assembled dictionary under the
  derived cache key with a time-to-live of 3600 seconds. The handler itself makes no
  \<^verbatim>\<open>SETEX\<close> call; the task, when the framework runs it, makes exactly one; and the
  reply is the same whatever \<^verbatim>\<open>SETEX\<close> would answer, so the response does not wait
  for or depend on the write.
\<close>

theorem write_behind_on_miss:
  assumes "model p \<noteq> None" and "tokenizer p = Some tok"
    and "\<not> truthy (fst (get_cached_response lib p
            (get_cache_key lib (GenerationRequest.prompt request) (cache_params_of request))))"
    and "text_generator p (GenerationRequest.prompt request) (gen_args_of tok request) = Inr out"
    and "encode tok out = Inr ids"
  shows "result (generate_text lib p request)
           = Inr \<lparr>GenerationResponse.prompt = GenerationRequest.prompt request,
                   generated_text = out, processing_time = clock p 1 - clock p 0,
                   device_used = DEVICE p, cached = False,
                   tokens_generated = int (length ids)\<rparr>
       \<and> background_tasks (generate_text lib p request)
           = [CacheResponseTask
                (get_cache_key lib (GenerationRequest.prompt request) (cache_params_of request))
                [(''prompt'', JStr (GenerationRequest.prompt request)),
                 (''generated_text'', JStr out),
                 (''processing_time'', JFloat (clock p 1 - clock p 0)),
                 (''device_used'', JStr (DEVICE p)),
                 (''cached'', JBool False),
                 (''tokens_generated'', JInt (int (length ids)))]
                3600]
       \<and> (\<forall>k t v. RedisSetex k t v \<notin> set (effects (generate_text lib p request)))
       \<and> (\<forall>rc. redis_client p = Some rc \<longrightarrow>
            (\<forall>task \<in> set (background_tasks (generate_text lib p request)).
               \<exists>rest. run_task lib p task
                  = RedisSetex
                      (get_cache_key lib (GenerationRequest.prompt request) (cache_params_of request))
                      3600
                      (json_dumps (float_repr lib) False (JObj
                         [(''prompt'', JStr (GenerationRequest.prompt request)),
                          (''generated_text'', JStr out),
                          (''processing_time'', JFloat (clock p 1 - clock p 0)),
                          (''device_used'', JStr (DEVICE p)),
                          (''cached'', JBool False),
                          (''tokens_generated'', JInt (int (length ids)))])) # rest
                \<and> (\<forall>k t v. RedisSetex k t v \<notin> set rest)))
       \<and> (\<forall>f. generate_text lib (p\<lparr>redis_client := map_option (SETEX_update f) (redis_client p)\<rparr>) request
              = generate_text lib p request)"
proof -
  let ?key = "get_cache_key lib (GenerationRequest.prompt request) (cache_params_of request)"
  obtain hit fx where g: "get_cached_response lib p ?key = (hit, fx)"
    by (cases "get_cached_response lib p ?key")
  from assms(1) obtain m where m: "model p = Some m" by auto
  from assms(3) g have miss: "\<not> truthy hit" by simp
  have fx: "RedisSetex k t v \<notin> set fx" for k t v
    using get_cached_response_no_setex [of k t v lib p ?key] g by simp
  have gt: "generate_text lib p request =
      try_generate lib p tok request (clock p 0) ?key fx"
    using generate_text_ready [OF m assms(2) g] miss by simp
  note ok = try_generate_ok [OF assms(4) assms(5), of lib "clock p 0" ?key fx]
  have 1: "result (generate_text lib p request)
           = Inr \<lparr>GenerationResponse.prompt = GenerationRequest.prompt request,
                   generated_text = out, processing_time = clock p 1 - clock p 0,
                   device_used = DEVICE p, cached = False,
                   tokens_generated = int (length ids)\<rparr>"
    by (simp add: gt ok)
  have 2: "background_tasks (generate_text lib p request)
           = [CacheResponseTask ?key
                [(''prompt'', JStr (GenerationRequest.prompt request)),
                 (''generated_text'', JStr out),
                 (''processing_time'', JFloat (clock p 1 - clock p 0)),
                 (''device_used'', JStr (DEVICE p)),
                 (''cached'', JBool False),
                 (''tokens_generated'', JInt (int (length ids)))]
                3600]"
    by (simp add: gt ok)
  have 3: "\<forall>k t v. RedisSetex k t v \<notin> set (effects (generate_text lib p request))"
    using fx by (simp add: gt ok)
  have 4: "\<forall>rc. redis_client p = Some rc \<longrightarrow>
            (\<forall>task \<in> set (background_tasks (generate_text lib p request)).
               \<exists>rest. run_task lib p task
                  = RedisSetex ?key 3600
                      (json_dumps (float_repr lib) False (JObj
                         [(''prompt'', JStr (GenerationRequest.prompt request)),
                          (''generated_text'', JStr out),
                          (''processing_time'', JFloat (clock p 1 - clock p 0)),
                          (''device_used'', JStr (DEVICE p)),
                          (''cached'', JBool False),
                          (''tokens_generated'', JInt (int (length ids)))])) # rest
                \<and> (\<forall>k t v. RedisSetex k t v \<notin> set rest))"
    unfolding 2 using cache_response_once [of p] by (simp del: json_dumps.simps)
  have 5: "\<forall>f. generate_text lib (p\<lparr>redis_client := map_option (SETEX_update f) (redis_client p)\<rparr>) request
              = generate_text lib p request"
    by (simp add: generate_text_SETEX)
  from 1 2 3 4 5 show ?thesis by blast
qed

theorem write_behind_on_miss_witness:
  "model example_process \<noteq> None \<and> tokenizer example_process = Some example_tokenizer
   \<and> \<not> truthy (fst (get_cached_response example_library example_process
          (get_cache_key example_library (GenerationRequest.prompt example_request)
             (cache_params_of example_request))))
   \<and> text_generator example_process (GenerationRequest.prompt example_request)
        (gen_args_of example_tokenizer example_request) = Inr ''pong''
   \<and> encode example_tokenizer ''pong'' = Inr [112, 111, 110, 103]
   \<and> result (generate_text example_library example_process example_request)
        = Inr \<lparr>GenerationResponse.prompt = ''ping'', generated_text = ''pong'',
                processing_time = 2, device_used = ''cpu'', cached = False,
                tokens_generated = 4\<rparr>
   \<and> background_tasks (generate_text example_library example_process example_request)
        = [CacheResponseTask
             (get_cache_key example_library ''ping'' (cache_params_of example_request))
             [(''prompt'', JStr ''ping''), (''generated_text'', JStr ''pong''),
              (''processing_time'', JFloat 2), (''device_used'', JStr ''cpu''),
              (''cached'', JBool False), (''tokens_generated'', JInt 4)] 3600]"
proof -
  have gen: "text_generator example_process (GenerationRequest.prompt example_request)
               (gen_args_of example_tokenizer example_request) = Inr ''pong''"
    by (simp add: example_process_def example_request_def)
  have enc: "encode example_tokenizer ''pong'' = Inr [112, 111, 110, 103]"
    by (simp add: example_tokenizer_def)
  have miss: "\<not> truthy (fst (get_cached_response example_library example_process
          (get_cache_key example_library (GenerationRequest.prompt example_request)
             (cache_params_of example_request))))"
    by (simp add: ex_miss)
  have ready: "model example_process \<noteq> None"
    by (simp add: example_ready)
  show ?thesis
    using write_behind_on_miss [OF ready example_ready(2) miss gen enc] gen enc miss ready example_ready(2)
    by (simp add: example_process_def example_request_def)
qed

subsection \<open>The stream field\<close>

text \<open>
  C9. Two requests that agree on every field except \<^verbatim>\<open>stream\<close> have the same cache
  key, the same arguments for the pipeline and the same reply (result, scheduled
  tasks and effects, among them the call of the pipeline).
\<close>

theorem stream_noninterference:
  assumes "GenerationRequest.prompt r1 = GenerationRequest.prompt r2"
    and "max_new_tokens r1 = max_new_tokens r2"
    and "temperature r1 = temperature r2"
    and "top_p r1 = top_p r2"
    and "do_sample r1 = do_sample r2"
  shows "get_cache_key lib (GenerationRequest.prompt r1) (cache_params_of r1)
           = get_cache_key lib (GenerationRequest.prompt r2) (cache_params_of r2)
       \<and> (\<forall>tok. gen_args_of tok r1 = gen_args_of tok r2)
       \<and> generate_text lib p r1 = generate_text lib p r2"
proof -
  have params: "cache_params_of r1 = cache_params_of r2"
    using assms by (simp add: cache_params_of_def)
  have args: "gen_args_of tok r1 = gen_args_of tok r2" for tok
    using assms by (simp add: gen_args_of_def)
  have tg: "try_generate lib p tok r1 start key fx = try_generate lib p tok r2 start key fx"
    for tok start key fx
    unfolding try_generate_def args assms(1) by (rule refl)
  have "generate_text lib p r1 = generate_text lib p r2"
    unfolding generate_text_def params assms(1) tg by (rule refl)
  with params args assms(1) show ?thesis by simp
qed

theorem stream_noninterference_witness:
  "GenerationRequest.prompt (example_request\<lparr>stream := True\<rparr>) = GenerationRequest.prompt example_request
   \<and> max_new_tokens (example_request\<lparr>stream := True\<rparr>) = max_new_tokens example_request
   \<and> temperature (example_request\<lparr>stream := True\<rparr>) = temperature example_request
   \<and> top_p (example_request\<lparr>stream := True\<rparr>) = top_p example_request
   \<and> do_sample (example_request\<lparr>stream := True\<rparr>) = do_sample example_request
   \<and> stream (example_request\<lparr>stream := True\<rparr>) \<noteq> stream example_request
   \<and> generate_text example_library example_process (example_request\<lparr>stream := True\<rparr>)
       = generate_text example_library example_process example_request"
  using stream_noninterference [of "example_request\<lparr>stream := True\<rparr>" example_request
          example_library example_process]
  by (simp add: example_request_def)

subsection \<open>Serving a cache hit\<close>

lemma serve_cached_Inr:
  assumes "result (serve_cached lib elapsed hit fx) = Inr response"
  shows "\<exists>d. hit = JObj d
     \<and> GenerationResponse_init lib
          (AList.update ''cached'' (JBool True)
             (AList.update ''processing_time'' (JFloat elapsed) d)) = Inr response"
  using assms by (cases hit) (auto simp: serve_cached_def Let_def split: sum.splits)

lemma example_hit:
  "get_cached_response example_library (example_process\<lparr>redis_client := Some store_with_entry\<rparr>) key
     = (JObj [(''prompt'', JStr ''ping''), (''generated_text'', JStr ''pong''),
              (''processing_time'', JFloat 3), (''device_used'', JStr ''cpu''),
              (''cached'', JBool False), (''tokens_generated'', JInt 1)],
        [RedisGet key])"
  by (simp add: get_cached_response_def example_library_def store_with_entry_def)

lemma serve_cached_well_typed:
  assumes "map_of d ''prompt'' = Some (JStr a)"
    and "map_of d ''generated_text'' = Some (JStr b)"
    and "map_of d ''device_used'' = Some (JStr c)"
    and "map_of d ''tokens_generated'' = Some (JInt n)"
  shows "result (serve_cached lib elapsed (JObj d) fx)
       = Inr \<lparr>GenerationResponse.prompt = a, generated_text = b, processing_time = elapsed,
               device_used = c, cached = True, tokens_generated = n\<rparr>"
proof -
  have "GenerationResponse_init lib
          (AList.update ''cached'' (JBool True)
             (AList.update ''processing_time'' (JFloat elapsed) d))
       = Inr \<lparr>GenerationResponse.prompt = a, generated_text = b, processing_time = elapsed,
               device_used = c, cached = True, tokens_generated = n\<rparr>"
    unfolding GenerationResponse_init_Inr using assms by (simp add: update_conv')
  then show ?thesis
    by (simp add: serve_cached_def)
qed

text \<open>
  C1. Whenever the handler serves a stored entry (the gateway returned a value that
  counts as true and the request ends with a response), the response has
  \<^verbatim>\<open>cached\<close> true and \<^verbatim>\<open>processing_time\<close> equal to the second clock reading minus
  the reading taken when the request was received, whatever the stored dictionary
  holds under these two keys, and each remaining field is the validated stored value.
  A stored dictionary whose four remaining fields have their declared types is served
  with exactly these four values, whether or not it has the two keys.
\<close>

theorem cache_hit_outcome:
  assumes "model p \<noteq> None" and "tokenizer p \<noteq> None"
    and "get_cached_response lib p
           (get_cache_key lib (GenerationRequest.prompt request) (cache_params_of request))
         = (hit, fx)"
    and "truthy hit"
  shows "(\<forall>response. result (generate_text lib p request) = Inr response \<longrightarrow>
            cached response = True
          \<and> processing_time response = clock p 1 - clock p 0
          \<and> (\<exists>d. hit = JObj d
               \<and> required (str_field lib) (map_of d ''prompt'')
                   = Some (GenerationResponse.prompt response)
               \<and> required (str_field lib) (map_of d ''generated_text'')
                   = Some (generated_text response)
               \<and> required (str_field lib) (map_of d ''device_used'')
                   = Some (device_used response)
               \<and> required (int_field lib) (map_of d ''tokens_generated'')
                   = Some (tokens_generated response)))
       \<and> (\<forall>d a b c n.
            hit = JObj d
            \<and> map_of d ''prompt'' = Some (JStr a)
            \<and> map_of d ''generated_text'' = Some (JStr b)
            \<and> map_of d ''device_used'' = Some (JStr c)
            \<and> map_of d ''tokens_generated'' = Some (JInt n) \<longrightarrow>
            result (generate_text lib p request)
              = Inr \<lparr>GenerationResponse.prompt = a, generated_text = b,
                      processing_time = clock p 1 - clock p 0, device_used = c,
                      cached = True, tokens_generated = n\<rparr>)"
proof -
  from assms(1,2) obtain m tok where mt: "model p = Some m" "tokenizer p = Some tok" by auto
  have gt: "generate_text lib p request = serve_cached lib (clock p 1 - clock p 0) hit fx"
    using generate_text_ready [OF mt assms(3)] assms(4) by simp
  have served: "cached response = True
          \<and> processing_time response = clock p 1 - clock p 0
          \<and> (\<exists>d. hit = JObj d
               \<and> required (str_field lib) (map_of d ''prompt'')
                   = Some (GenerationResponse.prompt response)
               \<and> required (str_field lib) (map_of d ''generated_text'')
                   = Some (generated_text response)
               \<and> required (str_field lib) (map_of d ''device_used'')
                   = Some (device_used response)
               \<and> required (int_field lib) (map_of d ''tokens_generated'')
                   = Some (tokens_generated response))"
    if r: "result (generate_text lib p request) = Inr response" for response
  proof -
    from r gt obtain d where d: "hit = JObj d"
      and init: "GenerationResponse_init lib
          (AList.update ''cached'' (JBool True)
             (AList.update ''processing_time'' (JFloat (clock p 1 - clock p 0)) d)) = Inr response"
      using serve_cached_Inr [of lib "clock p 1 - clock p 0" hit fx response] by auto
    note f = init [unfolded GenerationResponse_init_Inr]
    have "cached response = True" "processing_time response = clock p 1 - clock p 0"
      "required (str_field lib) (map_of d ''prompt'') = Some (GenerationResponse.prompt response)"
      "required (str_field lib) (map_of d ''generated_text'') = Some (generated_text response)"
      "required (str_field lib) (map_of d ''device_used'') = Some (device_used response)"
      "required (int_field lib) (map_of d ''tokens_generated'') = Some (tokens_generated response)"
      using f by (simp_all add: update_conv')
    with d show ?thesis by blast
  qed
  have typed: "result (generate_text lib p request)
              = Inr \<lparr>GenerationResponse.prompt = a, generated_text = b,
                      processing_time = clock p 1 - clock p 0, device_used = c,
                      cached = True, tokens_generated = n\<rparr>"
    if "hit = JObj d" "map_of d ''prompt'' = Some (JStr a)"
      "map_of d ''generated_text'' = Some (JStr b)" "map_of d ''device_used'' = Some (JStr c)"
      "map_of d ''tokens_generated'' = Some (JInt n)" for d a b c n
    unfolding gt that(1) using that(2-5) by (rule serve_cached_well_typed)
  show ?thesis
  proof (rule conjI; intro allI impI)
    fix response
    assume "result (generate_text lib p request) = Inr response"
    then show "cached response = True
          \<and> processing_time response = clock p 1 - clock p 0
          \<and> (\<exists>d. hit = JObj d
               \<and> required (str_field lib) (map_of d ''prompt'')
                   = Some (GenerationResponse.prompt response)
               \<and> required (str_field lib) (map_of d ''generated_text'')
                   = Some (generated_text response)
               \<and> required (str_field lib) (map_of d ''device_used'')
                   = Some (device_used response)
               \<and> required (int_field lib) (map_of d ''tokens_generated'')
                   = Some (tokens_generated response))"
      by (rule served)
  next
    fix d a b c n
    assume "hit = JObj d
            \<and> map_of d ''prompt'' = Some (JStr a)
            \<and> map_of d ''generated_text'' = Some (JStr b)
            \<and> map_of d ''device_used'' = Some (JStr c)
            \<and> map_of d ''tokens_generated'' = Some (JInt n)"
    then show "result (generate_text lib p request)
              = Inr \<lparr>GenerationResponse.prompt = a, generated_text = b,
                      processing_time = clock p 1 - clock p 0, device_used = c,
                      cached = True, tokens_generated = n\<rparr>"
      using typed [of d a b c n] by blast
  qed
qed

theorem cache_hit_outcome_witness:
  "model (example_process\<lparr>redis_client := Some store_with_entry\<rparr>) \<noteq> None
   \<and> tokenizer (example_process\<lparr>redis_client := Some store_with_entry\<rparr>) \<noteq> None
   \<and> truthy (fst (get_cached_response example_library
         (example_process\<lparr>redis_client := Some store_with_entry\<rparr>)
         (get_cache_key example_library (GenerationRequest.prompt example_request)
            (cache_params_of example_request))))
   \<and> map_of [(''prompt'', JStr ''ping''), (''generated_text'', JStr ''pong''),
              (''processing_time'', JFloat 3), (''device_used'', JStr ''cpu''),
              (''cached'', JBool False), (''tokens_generated'', JInt 1)] ''cached'' = Some (JBool False)
   \<and> result (generate_text example_library (example_process\<lparr>redis_client := Some store_with_entry\<rparr>)
         example_request)
       = Inr \<lparr>GenerationResponse.prompt = ''ping'', generated_text = ''pong'',
               processing_time = 2, device_used = ''cpu'', cached = True,
               tokens_generated = 1\<rparr>
   \<and> clock (example_process\<lparr>redis_client := Some store_with_entry\<rparr>) 1
       - clock (example_process\<lparr>redis_client := Some store_with_entry\<rparr>) 0 = 2"
proof -
  have clk: "clock (example_process\<lparr>redis_client := Some store_with_entry\<rparr>) 1
       - clock (example_process\<lparr>redis_client := Some store_with_entry\<rparr>) 0 = 2"
    by (simp add: example_process_def)
  have ready: "model (example_process\<lparr>redis_client := Some store_with_entry\<rparr>) \<noteq> None"
    "tokenizer (example_process\<lparr>redis_client := Some store_with_entry\<rparr>) \<noteq> None"
    by (simp_all add: example_ready)
  have t: "truthy (JObj [(''prompt'', JStr ''ping''), (''generated_text'', JStr ''pong''),
              (''processing_time'', JFloat 3), (''device_used'', JStr ''cpu''),
              (''cached'', JBool False), (''tokens_generated'', JInt 1)])"
    by simp
  have "result (generate_text example_library
         (example_process\<lparr>redis_client := Some store_with_entry\<rparr>) example_request)
       = Inr \<lparr>GenerationResponse.prompt = ''ping'', generated_text = ''pong'',
               processing_time = clock (example_process\<lparr>redis_client := Some store_with_entry\<rparr>) 1
                 - clock (example_process\<lparr>redis_client := Some store_with_entry\<rparr>) 0,
               device_used = ''cpu'', cached = True, tokens_generated = 1\<rparr>"
    by (rule cache_hit_outcome [OF ready example_hit t, THEN conjunct2, rule_format,
          of "[(''prompt'', JStr ''ping''), (''generated_text'', JStr ''pong''),
               (''processing_time'', JFloat 3), (''device_used'', JStr ''cpu''),
               (''cached'', JBool False), (''tokens_generated'', JInt 1)]"]) simp
  with ready clk t show ?thesis
    by (simp add: example_hit)
qed

subsection \<open>Failures of the store\<close>

lemma try_generate_fx:
  "result (try_generate lib p tok request start key fx)
     = result (try_generate lib p tok request start key fx')
   \<and> background_tasks (try_generate lib p tok request start key fx)
     = background_tasks (try_generate lib p tok request start key fx')"
  by (cases rule: generation_outcome_cases [of p request tok])
     (simp_all add: try_generate_raise try_generate_encode_raise try_generate_ok)

lemma try_generate_uncached:
  "result (try_generate lib p tok request start key fx) = Inr r \<Longrightarrow> cached r = False"
  by (cases rule: generation_outcome_cases [of p request tok])
     (auto simp: try_generate_raise try_generate_encode_raise try_generate_ok)

lemma get_cached_response_store_raises:
  "redis_client p = Some rc \<Longrightarrow> GET rc key = Inl e \<Longrightarrow>
   get_cached_response lib p key = (JNull, [RedisGet key, Log WARNING (CacheReadFailed e)])"
  by (simp add: get_cached_response_def)

lemma get_cached_response_malformed:
  "redis_client p = Some rc \<Longrightarrow> GET rc key = Inr (Some payload) \<Longrightarrow> payload \<noteq> [] \<Longrightarrow>
   json_loads lib payload = Inl e \<Longrightarrow>
   get_cached_response lib p key = (JNull, [RedisGet key, Log WARNING (CacheReadFailed e)])"
  by (simp add: get_cached_response_def)

text \<open>
  A stored text that the parser accepts is returned as the parser gives it, whatever
  its shape; the gateway does not compare it with the fields of a response.
\<close>

lemma get_cached_response_parsed:
  "redis_client p = Some rc \<Longrightarrow> GET rc key = Inr (Some payload) \<Longrightarrow> payload \<noteq> [] \<Longrightarrow>
   json_loads lib payload = Inr v \<Longrightarrow>
   get_cached_response lib p key = (v, [RedisGet key])"
  by (simp add: get_cached_response_def)

lemma get_cached_response_no_client:
  "get_cached_response lib (p\<lparr>redis_client := None\<rparr>) key = (JNull, [])"
  by (simp add: get_cached_response_def)

lemma cache_response_store_raises:
  "redis_client p = Some rc \<Longrightarrow>
   SETEX rc key ttl (json_dumps (float_repr lib) False (JObj response)) = Inl e \<Longrightarrow>
   cache_response lib p key response ttl
     = [RedisSetex key ttl (json_dumps (float_repr lib) False (JObj response)),
        Log WARNING (CacheWriteFailed e)]"
  by (simp add: cache_response_def Let_def del: json_dumps.simps)

lemma generate_text_missed:
  assumes "fst (get_cached_response lib p
      (get_cache_key lib (GenerationRequest.prompt request) (cache_params_of request))) = JNull"
  shows "generate_text lib p request =
     (case (model p, tokenizer p) of
        (Some m, Some tok) \<Rightarrow>
           try_generate lib p tok request (clock p 0)
             (get_cache_key lib (GenerationRequest.prompt request) (cache_params_of request))
             (snd (get_cached_response lib p
                (get_cache_key lib (GenerationRequest.prompt request) (cache_params_of request))))
      | _ \<Rightarrow> \<lparr>result = Inl (HTTPException 503 ''Model not loaded''), background_tasks = [],
               effects = []\<rparr>)"
proof -
  let ?key = "get_cache_key lib (GenerationRequest.prompt request) (cache_params_of request)"
  obtain hit fx where g: "get_cached_response lib p ?key = (hit, fx)"
    by (cases "get_cached_response lib p ?key")
  with assms have "hit = JNull" by simp
  with g show ?thesis
    by (simp add: generate_text_def Let_def split: option.splits)
qed

text \<open>
  C2. The gateway absorbs the failures of the store. \<^verbatim>\<open>get_cached_response\<close> returns
  \<^verbatim>\<open>None\<close> and logs a warning when the \<^verbatim>\<open>GET\<close> raises and when the stored text is
  malformed, that is, when \<^verbatim>\<open>json.loads\<close> raises on it; \<^verbatim>\<open>cache_response\<close> logs a
  warning and returns when the \<^verbatim>\<open>SETEX\<close> raises. Hence, with a store whose every
  \<^verbatim>\<open>GET\<close> raises, a request has the result and the scheduled tasks it has without a
  cache, a response is never marked as cached, and every request whose generation
  returns is answered with a response.
\<close>

theorem cache_failures_are_absorbed:
  assumes "redis_client p = Some rc"
  shows "(GET rc key = Inl e \<longrightarrow>
            get_cached_response lib p key
              = (JNull, [RedisGet key, Log WARNING (CacheReadFailed e)]))
       \<and> (GET rc key = Inr (Some payload) \<and> payload \<noteq> [] \<and> json_loads lib payload = Inl e \<longrightarrow>
            get_cached_response lib p key
              = (JNull, [RedisGet key, Log WARNING (CacheReadFailed e)]))
       \<and> (SETEX rc key ttl (json_dumps (float_repr lib) False (JObj response)) = Inl e \<longrightarrow>
            cache_response lib p key response ttl
              = [RedisSetex key ttl (json_dumps (float_repr lib) False (JObj response)),
                 Log WARNING (CacheWriteFailed e)])
       \<and> ((\<forall>k. isl (GET rc k)) \<longrightarrow>
            result (generate_text lib p request)
              = result (generate_text lib (p\<lparr>redis_client := None\<rparr>) request)
          \<and> background_tasks (generate_text lib p request)
              = background_tasks (generate_text lib (p\<lparr>redis_client := None\<rparr>) request)
          \<and> (\<forall>r. result (generate_text lib p request) = Inr r \<longrightarrow> cached r = False)
          \<and> (\<forall>tok out ids.
                model p \<noteq> None \<and> tokenizer p = Some tok
                \<and> text_generator p (GenerationRequest.prompt request) (gen_args_of tok request) = Inr out
                \<and> encode tok out = Inr ids \<longrightarrow>
                (\<exists>r. result (generate_text lib p request) = Inr r \<and> cached r = False)))"
proof (intro conjI impI)
  assume "GET rc key = Inl e"
  with assms show "get_cached_response lib p key
      = (JNull, [RedisGet key, Log WARNING (CacheReadFailed e)])"
    by (rule get_cached_response_store_raises)
next
  assume "GET rc key = Inr (Some payload) \<and> payload \<noteq> [] \<and> json_loads lib payload = Inl e"
  with assms show "get_cached_response lib p key
      = (JNull, [RedisGet key, Log WARNING (CacheReadFailed e)])"
    by (simp add: get_cached_response_malformed)
next
  assume "SETEX rc key ttl (json_dumps (float_repr lib) False (JObj response)) = Inl e"
  with assms show "cache_response lib p key response ttl
      = [RedisSetex key ttl (json_dumps (float_repr lib) False (JObj response)),
         Log WARNING (CacheWriteFailed e)]"
    by (rule cache_response_store_raises)
next
  let ?key = "get_cache_key lib (GenerationRequest.prompt request) (cache_params_of request)"
  let ?q = "p\<lparr>redis_client := None\<rparr>"
  assume down: "\<forall>k. isl (GET rc k)"
  then have "isl (GET rc ?key)" by (rule spec)
  then obtain e' where "GET rc ?key = Inl e'"
    by (cases "GET rc ?key") simp_all
  with assms have miss: "fst (get_cached_response lib p ?key) = JNull"
    by (simp add: get_cached_response_store_raises)
  note gp = generate_text_missed [OF miss]
  have "fst (get_cached_response lib ?q ?key) = JNull"
    by (simp add: get_cached_response_no_client)
  note gq = generate_text_missed [OF this]
  show "result (generate_text lib p request) = result (generate_text lib ?q request)"
    unfolding gp gq
    by (auto simp: try_generate_redis_client split: option.splits
             intro: try_generate_fx [THEN conjunct1])
  show "background_tasks (generate_text lib p request)
      = background_tasks (generate_text lib ?q request)"
    unfolding gp gq
    by (auto simp: try_generate_redis_client split: option.splits
             intro: try_generate_fx [THEN conjunct2])
  show "\<forall>r. result (generate_text lib p request) = Inr r \<longrightarrow> cached r = False"
    unfolding gp by (auto split: option.splits dest: try_generate_uncached)
  show "\<forall>tok out ids.
      model p \<noteq> None \<and> tokenizer p = Some tok
      \<and> text_generator p (GenerationRequest.prompt request) (gen_args_of tok request) = Inr out
      \<and> encode tok out = Inr ids \<longrightarrow>
      (\<exists>r. result (generate_text lib p request) = Inr r \<and> cached r = False)"
    unfolding gp by (auto simp: try_generate_ok)
qed

theorem cache_failures_are_absorbed_witness:
  "redis_client example_process = Some store_down
   \<and> GET store_down ''k'' = Inl ''Connection refused''
   \<and> get_cached_response example_library example_process ''k''
       = (JNull, [RedisGet ''k'', Log WARNING (CacheReadFailed ''Connection refused'')])
   \<and> SETEX store_down ''k'' 3600 (json_dumps (float_repr example_library) False (JObj []))
       = Inl ''Connection refused''
   \<and> cache_response example_library example_process ''k'' [] 3600
       = [RedisSetex ''k'' 3600 ''{}'', Log WARNING (CacheWriteFailed ''Connection refused'')]
   \<and> (\<forall>k. isl (GET store_down k))
   \<and> result (generate_text example_library example_process example_request)
       = Inr \<lparr>GenerationResponse.prompt = ''ping'', generated_text = ''pong'',
               processing_time = 2, device_used = ''cpu'', cached = False,
               tokens_generated = 4\<rparr>
   \<and> redis_client (example_process\<lparr>redis_client := Some store_garbled\<rparr>) = Some store_garbled
   \<and> GET store_garbled ''k'' = Inr (Some ''{not json'')
   \<and> json_loads example_library ''{not json'' = Inl ''Expecting value''
   \<and> get_cached_response example_library (example_process\<lparr>redis_client := Some store_garbled\<rparr>) ''k''
       = (JNull, [RedisGet ''k'', Log WARNING (CacheReadFailed ''Expecting value'')])"
proof -
  have c: "redis_client example_process = Some store_down"
    by (simp add: example_process_def)
  have g: "redis_client (example_process\<lparr>redis_client := Some store_garbled\<rparr>) = Some store_garbled"
    by simp
  have down: "GET store_down k = Inl ''Connection refused''"
    "SETEX store_down k t v = Inl ''Connection refused''" for k t v
    by (simp_all add: store_down_def)
  have garbled: "GET store_garbled ''k'' = Inr (Some ''{not json'')"
    "json_loads example_library ''{not json'' = Inl ''Expecting value''"
    by (simp_all add: store_garbled_def example_library_def)
  show ?thesis
    using
      cache_failures_are_absorbed [where p = example_process and rc = store_down
        and key = "''k''" and e = "''Connection refused''" and payload = "[]"
        and lib = example_library and ttl = 3600 and response = "[]" and request = example_request]
      cache_failures_are_absorbed [where p = "example_process\<lparr>redis_client := Some store_garbled\<rparr>"
        and rc = store_garbled and key = "''k''" and e = "''Expecting value''"
        and payload = "''{not json''" and lib = example_library and ttl = 3600
        and response = "[]" and request = example_request]
    by (simp add: c down garbled example_generated)
qed

subsection \<open>Validation of the request\<close>

lemma GenerationRequest_init_Inr:
  "GenerationRequest_init lib body = Inr request \<longleftrightarrow>
     required (str_field lib) (map_of body ''prompt'') = Some (GenerationRequest.prompt request)
   \<and> with_default 100 (int_field lib) (map_of body ''max_new_tokens'') = Some (max_new_tokens request)
   \<and> with_default 0.7 (float_field lib) (map_of body ''temperature'') = Some (temperature request)
   \<and> with_default 0.9 (float_field lib) (map_of body ''top_p'') = Some (top_p request)
   \<and> with_default True (bool_field lib) (map_of body ''do_sample'') = Some (do_sample request)
   \<and> with_default False (bool_field lib) (map_of body ''stream'') = Some (stream request)
   \<and> 1 \<le> length (GenerationRequest.prompt request) \<and> length (GenerationRequest.prompt request) \<le> 2000
   \<and> 1 \<le> max_new_tokens request \<and> max_new_tokens request \<le> 500
   \<and> 0.1 \<le> temperature request \<and> temperature request \<le> 2.0
   \<and> 0.1 \<le> top_p request \<and> top_p request \<le> 1.0"
  by (cases request) (auto simp: GenerationRequest_init_def split: option.splits)

lemma post_generate_rejected:
  "isl (GenerationRequest_init lib body) \<Longrightarrow>
   post_generate lib p body =
     \<lparr>result = Inl (RequestValidationError (validation_error_text lib body)),
      background_tasks = [], effects = []\<rparr>"
  by (auto simp: post_generate_def GenerationRequest_init_def split: sum.splits option.splits if_splits)

text \<open>
  C8. The request is validated before the handler runs. A body that is accepted gives
  a request with a prompt of 1 to 2000 characters, \<^verbatim>\<open>max_new_tokens\<close> in 1..500,
  \<^verbatim>\<open>temperature\<close> in 0.1..2.0 and \<^verbatim>\<open>top_p\<close> in 0.1..1.0, with the defaults 100, 0.7, 0.9
  and true for the keys the body leaves out, and the route answers with the handler's
  reply for that request. A body with only a prompt in range is accepted with all the
  defaults. A body without a prompt, with an empty prompt, with a prompt of more than
  2000 characters, or with an integer or float outside its range is rejected: the
  route answers with a validation error and the handler does not run (no effect, no
  task).
\<close>

theorem request_validation:
  "(GenerationRequest_init lib body = Inr request \<longrightarrow>
       1 \<le> length (GenerationRequest.prompt request) \<and> length (GenerationRequest.prompt request) \<le> 2000
     \<and> 1 \<le> max_new_tokens request \<and> max_new_tokens request \<le> 500
     \<and> 0.1 \<le> temperature request \<and> temperature request \<le> 2.0
     \<and> 0.1 \<le> top_p request \<and> top_p request \<le> 1.0
     \<and> (map_of body ''max_new_tokens'' = None \<longrightarrow> max_new_tokens request = 100)
     \<and> (map_of body ''temperature'' = None \<longrightarrow> temperature request = 0.7)
     \<and> (map_of body ''top_p'' = None \<longrightarrow> top_p request = 0.9)
     \<and> (map_of body ''do_sample'' = None \<longrightarrow> do_sample request = True)
     \<and> post_generate lib p body = generate_text lib p request)
   \<and> (map_of body ''prompt'' = Some (JStr s) \<and> 1 \<le> length s \<and> length s \<le> 2000
        \<and> map_of body ''max_new_tokens'' = None \<and> map_of body ''temperature'' = None
        \<and> map_of body ''top_p'' = None \<and> map_of body ''do_sample'' = None
        \<and> map_of body ''stream'' = None \<longrightarrow>
       GenerationRequest_init lib body
         = Inr \<lparr>GenerationRequest.prompt = s, max_new_tokens = 100, temperature = 0.7,
                 top_p = 0.9, do_sample = True, stream = False\<rparr>)
   \<and> ((map_of body ''prompt'' = None
         \<or> map_of body ''prompt'' = Some (JStr [])
         \<or> (\<exists>s. map_of body ''prompt'' = Some (JStr s) \<and> 2000 < length s)
         \<or> (\<exists>n. map_of body ''max_new_tokens'' = Some (JInt n) \<and> (n < 1 \<or> 500 < n))
         \<or> (\<exists>x. map_of body ''temperature'' = Some (JFloat x) \<and> (x < 0.1 \<or> 2.0 < x))
         \<or> (\<exists>x. map_of body ''top_p'' = Some (JFloat x) \<and> (x < 0.1 \<or> 1.0 < x))) \<longrightarrow>
       isl (GenerationRequest_init lib body)
     \<and> (\<exists>e. result (post_generate lib p body) = Inl (RequestValidationError e))
     \<and> background_tasks (post_generate lib p body) = []
     \<and> effects (post_generate lib p body) = [])"
proof (intro conjI impI)
  assume ok: "GenerationRequest_init lib body = Inr request"
  note f = ok [unfolded GenerationRequest_init_Inr]
  from f show "1 \<le> length (GenerationRequest.prompt request)"
    "length (GenerationRequest.prompt request) \<le> 2000"
    "1 \<le> max_new_tokens request" "max_new_tokens request \<le> 500"
    "0.1 \<le> temperature request" "temperature request \<le> 2.0"
    "0.1 \<le> top_p request" "top_p request \<le> 1.0"
    by simp_all
  { assume "map_of body ''max_new_tokens'' = None"
    with f show "max_new_tokens request = 100" by simp }
  { assume "map_of body ''temperature'' = None"
    with f show "temperature request = 0.7" by simp }
  { assume "map_of body ''top_p'' = None"
    with f show "top_p request = 0.9" by simp }
  { assume "map_of body ''do_sample'' = None"
    with f show "do_sample request = True" by simp }
  from ok show "post_generate lib p body = generate_text lib p request"
    by (simp add: post_generate_def)
next
  assume "map_of body ''prompt'' = Some (JStr s) \<and> 1 \<le> length s \<and> length s \<le> 2000
        \<and> map_of body ''max_new_tokens'' = None \<and> map_of body ''temperature'' = None
        \<and> map_of body ''top_p'' = None \<and> map_of body ''do_sample'' = None
        \<and> map_of body ''stream'' = None"
  then show "GenerationRequest_init lib body
         = Inr \<lparr>GenerationRequest.prompt = s, max_new_tokens = 100, temperature = 0.7,
                 top_p = 0.9, do_sample = True, stream = False\<rparr>"
    by (simp add: GenerationRequest_init_Inr)
next
  assume bad: "map_of body ''prompt'' = None
         \<or> map_of body ''prompt'' = Some (JStr [])
         \<or> (\<exists>s. map_of body ''prompt'' = Some (JStr s) \<and> 2000 < length s)
         \<or> (\<exists>n. map_of body ''max_new_tokens'' = Some (JInt n) \<and> (n < 1 \<or> 500 < n))
         \<or> (\<exists>x. map_of body ''temperature'' = Some (JFloat x) \<and> (x < 0.1 \<or> 2.0 < x))
         \<or> (\<exists>x. map_of body ''top_p'' = Some (JFloat x) \<and> (x < 0.1 \<or> 1.0 < x))"
  have rej: "isl (GenerationRequest_init lib body)"
  proof (cases "GenerationRequest_init lib body")
    case (Inl e)
    then show ?thesis by simp
  next
    case (Inr r)
    note f = Inr [unfolded GenerationRequest_init_Inr]
    from bad f show ?thesis by auto
  qed
  then show "isl (GenerationRequest_init lib body)" .
  from rej show "\<exists>e. result (post_generate lib p body) = Inl (RequestValidationError e)"
    "background_tasks (post_generate lib p body) = []"
    "effects (post_generate lib p body) = []"
    by (simp_all add: post_generate_rejected)
qed

theorem request_validation_witness:
  "GenerationRequest_init example_library [(''prompt'', JStr ''ping'')] = Inr example_request
   \<and> post_generate example_library example_process [(''prompt'', JStr ''ping'')]
       = generate_text example_library example_process example_request
   \<and> isl (GenerationRequest_init example_library [(''prompt'', JStr '''')])
   \<and> 2000 < length (replicate 2001 CHR ''a'')
   \<and> isl (GenerationRequest_init example_library [(''prompt'', JStr (replicate 2001 CHR ''a''))])
   \<and> isl (GenerationRequest_init example_library
          [(''prompt'', JStr ''ping''), (''max_new_tokens'', JInt 501)])
   \<and> effects (post_generate example_library example_process
          [(''prompt'', JStr ''ping''), (''max_new_tokens'', JInt 501)]) = []
   \<and> background_tasks (post_generate example_library example_process
          [(''prompt'', JStr ''ping''), (''max_new_tokens'', JInt 501)]) = []"
  using
    request_validation [where lib = example_library and p = example_process
      and body = "[(''prompt'', JStr ''ping'')]" and request = example_request and s = "''ping''"]
    request_validation [where lib = example_library and p = example_process
      and body = "[(''prompt'', JStr '''')]" and request = example_request and s = "''''"]
    request_validation [where lib = example_library and p = example_process
      and body = "[(''prompt'', JStr (replicate 2001 CHR ''a''))]" and request = example_request
      and s = "''''"]
    request_validation [where lib = example_library and p = example_process
      and body = "[(''prompt'', JStr ''ping''), (''max_new_tokens'', JInt 501)]"
      and request = example_request and s = "''ping''"]
  by (simp add: example_request_def)

subsection \<open>The cache key does not depend on the order of the parameters\<close>

lemma sort_key_fst_unique:
  assumes "distinct (map fst xs)" and "distinct (map fst ys)" and "set xs = set ys"
  shows "sort_key fst xs = sort_key fst ys"
proof (rule map_sorted_distinct_set_unique [where f = fst])
  from assms(1) have "inj_on fst (set xs)"
    by (simp add: distinct_map)
  with assms(3) show "inj_on fst (set (sort_key fst xs) \<union> set (sort_key fst ys))"
    by simp
  show "sorted (map fst (sort_key fst xs))" "sorted (map fst (sort_key fst ys))"
    by (rule sorted_sort_key)+
  from assms(1) show "distinct (map fst (sort_key fst xs))"
    by (simp add: distinct_map)
  from assms(2) show "distinct (map fst (sort_key fst ys))"
    by (simp add: distinct_map)
  from assms(3) show "set (sort_key fst xs) = set (sort_key fst ys)"
    by simp
qed

text \<open>
  C4. Two parameter dictionaries with the same items (each key once) in different
  insertion orders have the same serialisation with sorted keys, hence for every
  prompt the same cache key.
\<close>

theorem cache_key_order_independent:
  assumes "distinct (map fst P1)" and "distinct (map fst P2)" and "set P1 = set P2"
  shows "json_dumps (float_repr lib) True (JObj P1) = json_dumps (float_repr lib) True (JObj P2)
       \<and> get_cache_key lib T P1 = get_cache_key lib T P2"
proof -
  let ?g = "\<lambda>kv. (fst kv, json_dumps (float_repr lib) True (snd kv))"
  have "sort_key fst (map ?g P1) = sort_key fst (map ?g P2)"
  proof (rule sort_key_fst_unique)
    from assms(1) show "distinct (map fst (map ?g P1))" by (simp add: comp_def)
    from assms(2) show "distinct (map fst (map ?g P2))" by (simp add: comp_def)
    from assms(3) show "set (map ?g P1) = set (map ?g P2)" by simp
  qed
  then have "json_dumps (float_repr lib) True (JObj P1) = json_dumps (float_repr lib) True (JObj P2)"
    by simp
  then show ?thesis
    by (simp add: get_cache_key_def cache_data_def del: json_dumps.simps)
qed

theorem cache_key_order_independent_witness:
  "distinct (map fst (cache_params_of example_request))
   \<and> distinct (map fst (rev (cache_params_of example_request)))
   \<and> set (cache_params_of example_request) = set (rev (cache_params_of example_request))
   \<and> cache_params_of example_request \<noteq> rev (cache_params_of example_request)
   \<and> get_cache_key example_library ''ping'' (cache_params_of example_request)
       = get_cache_key example_library ''ping'' (rev (cache_params_of example_request))"
proof -
  have d: "distinct (map fst (cache_params_of example_request))"
    by (simp add: cache_params_of_def)
  then have d': "distinct (map fst (rev (cache_params_of example_request)))"
    by (simp only: rev_map [symmetric] distinct_rev)
  have s: "set (cache_params_of example_request) = set (rev (cache_params_of example_request))"
    by simp
  have n: "cache_params_of example_request \<noteq> rev (cache_params_of example_request)"
    by (simp add: cache_params_of_def)
  show ?thesis
    using cache_key_order_independent [OF d d' s, of example_library "''ping''"] d d' s n
    by blast
qed

subsection \<open>Different requests have different cache keys\<close>

declare digits.simps [simp del]

lemma digit_char_in: "d < 10 \<Longrightarrow> digit_char d \<in> set ''0123456789''"
  unfolding digit_char_def by (rule nth_mem) simp

lemma digit_char_inj: "a < 10 \<Longrightarrow> b < 10 \<Longrightarrow> digit_char a = digit_char b \<Longrightarrow> a = b"
  unfolding digit_char_def by (subst (asm) nth_eq_iff_index_eq) simp_all

lemma digits_nonempty: "digits n \<noteq> []"
  by (subst digits.simps) simp

lemma digit_char_plain:
  assumes "d < 10"
  shows "digit_char d \<noteq> CHR '',''" "digit_char d \<noteq> CHR ''{''" "digit_char d \<noteq> CHR ''-''"
  using digit_char_in [OF assms] by auto

lemma digits_chars: "c \<in> set (digits n) \<Longrightarrow> \<exists>d<10. c = digit_char d"
proof (induction n rule: digits.induct)
  case (1 n)
  show ?case
  proof (cases "n < 10")
    case True
    then have "digits n = [digit_char n]" by (subst digits.simps) simp
    with True 1(2) show ?thesis by auto
  next
    case False
    then have "digits n = digits (n div 10) @ [digit_char (n mod 10)]"
      by (subst digits.simps) simp
    with 1(2) have "c \<in> set (digits (n div 10)) \<or> c = digit_char (n mod 10)"
      by auto
    then show ?thesis
    proof
      assume "c \<in> set (digits (n div 10))"
      with False show ?thesis by (rule 1(1))
    next
      assume "c = digit_char (n mod 10)"
      moreover have "n mod 10 < 10" by simp
      ultimately show ?thesis by blast
    qed
  qed
qed

lemma digits_plain:
  "CHR '','' \<notin> set (digits n)" "CHR ''{'' \<notin> set (digits n)" "CHR ''-'' \<notin> set (digits n)"
proof -
  have "c \<noteq> CHR '','' \<and> c \<noteq> CHR ''{'' \<and> c \<noteq> CHR ''-''" if "c \<in> set (digits n)" for c
  proof -
    from that obtain d where "d < 10" "c = digit_char d"
      using digits_chars by blast
    then show ?thesis
      by (simp add: digit_char_plain)
  qed
  then show "CHR '','' \<notin> set (digits n)" "CHR ''{'' \<notin> set (digits n)"
    "CHR ''-'' \<notin> set (digits n)"
    by blast+
qed

lemma digits_inj: "digits n = digits m \<Longrightarrow> n = m"
proof (induction n arbitrary: m rule: digits.induct)
  case (1 n)
  have dn: "digits n = (if n < 10 then [digit_char n] else digits (n div 10) @ [digit_char (n mod 10)])"
    by (rule digits.simps)
  have dm: "digits m = (if m < 10 then [digit_char m] else digits (m div 10) @ [digit_char (m mod 10)])"
    by (rule digits.simps)
  show ?case
  proof (cases "n < 10")
    case n: True
    show ?thesis
    proof (cases "m < 10")
      case True
      with n 1(2) dn dm have "digit_char n = digit_char m" by simp
      with n True show ?thesis by (rule digit_char_inj)
    next
      case False
      with n 1(2) dn dm have "[digit_char n] = digits (m div 10) @ [digit_char (m mod 10)]"
        by simp
      then have "digits (m div 10) = []" by simp
      with digits_nonempty show ?thesis by blast
    qed
  next
    case n: False
    show ?thesis
    proof (cases "m < 10")
      case True
      with n 1(2) dn dm have "digits (n div 10) @ [digit_char (n mod 10)] = [digit_char m]"
        by simp
      then have "digits (n div 10) = []" by simp
      with digits_nonempty show ?thesis by blast
    next
      case False
      with n 1(2) dn dm
      have "digits (n div 10) @ [digit_char (n mod 10)] = digits (m div 10) @ [digit_char (m mod 10)]"
        by simp
      then have eq: "digits (n div 10) = digits (m div 10)"
        and last: "digit_char (n mod 10) = digit_char (m mod 10)"
        by simp_all
      from 1(1) [OF n eq] have d: "n div 10 = m div 10" .
      have "n mod 10 < 10" "m mod 10 < 10" by simp_all
      from this last have "n mod 10 = m mod 10" by (rule digit_char_inj)
      with d show ?thesis
        by (metis div_mult_mod_eq)
    qed
  qed
qed

lemma str_int_plain:
  "CHR '','' \<notin> set (str_int i)" "CHR ''{'' \<notin> set (str_int i)"
  by (simp_all add: str_int_def digits_plain)

lemma str_int_inj: "str_int i = str_int j \<Longrightarrow> i = j"
proof -
  have nodash: "CHR ''-'' # xs \<noteq> digits n" for xs n
  proof
    assume "CHR ''-'' # xs = digits n"
    then have "CHR ''-'' \<in> set (digits n)" by (metis list.set_intros(1))
    with digits_plain(3) show False by blast
  qed
  assume eq: "str_int i = str_int j"
  show ?thesis
  proof (cases "i < 0")
    case i: True
    show ?thesis
    proof (cases "j < 0")
      case True
      with i eq have "digits (nat (- i)) = digits (nat (- j))" by (simp add: str_int_def)
      then have "nat (- i) = nat (- j)" by (rule digits_inj)
      with i True show ?thesis by simp
    next
      case False
      with i eq nodash [of "digits (nat (- i))" "nat j"] show ?thesis by (simp add: str_int_def)
    qed
  next
    case i: False
    show ?thesis
    proof (cases "j < 0")
      case True
      with i eq nodash [of "digits (nat (- j))" "nat i"] show ?thesis by (simp add: str_int_def)
    next
      case False
      with i eq have "digits (nat i) = digits (nat j)" by (simp add: str_int_def)
      then have "nat i = nat j" by (rule digits_inj)
      with i False show ?thesis by simp
    qed
  qed
qed

lemma takeWhile_delimiter: "d \<notin> set xs \<Longrightarrow> takeWhile (\<lambda>c. c \<noteq> d) (xs @ d # ys) = xs"
  by (induction xs) auto

lemma first_delimiter:
  assumes "d \<notin> set xs" and "d \<notin> set xs'" and "xs @ d # ys = xs' @ d # ys'"
  shows "xs = xs' \<and> ys = ys'"
proof -
  have "takeWhile (\<lambda>c. c \<noteq> d) (xs @ d # ys) = xs"
    using assms(1) by (rule takeWhile_delimiter)
  moreover have "takeWhile (\<lambda>c. c \<noteq> d) (xs' @ d # ys') = xs'"
    using assms(2) by (rule takeWhile_delimiter)
  ultimately have "xs = xs'" using assms(3) by simp
  with assms(3) show ?thesis by simp
qed

lemma last_delimiter:
  assumes "d \<notin> set ys" and "d \<notin> set ys'" and "xs @ d # ys = xs' @ d # ys'"
  shows "xs = xs' \<and> ys = ys'"
proof -
  from assms(3) have "rev (xs @ d # ys) = rev (xs' @ d # ys')" by simp
  then have "rev ys @ d # rev xs = rev ys' @ d # rev xs'" by simp
  moreover from assms(1,2) have "d \<notin> set (rev ys)" "d \<notin> set (rev ys')" by simp_all
  ultimately have "rev ys = rev ys' \<and> rev xs = rev xs'"
    using first_delimiter [of d "rev ys" "rev ys'" "rev xs" "rev xs'"] by blast
  then show ?thesis by simp
qed

lemma dumps_cache_params:
  "json_dumps fr True (JObj (cache_params_of r)) =
     CHR ''{'' #
       ((CHR 0x22 # ''do_sample'' @ [CHR 0x22, CHR '':'', CHR '' ''])
        @ (if do_sample r then ''true'' else ''false'')
        @ ('', '' @ CHR 0x22 # ''max_new_tokens'' @ [CHR 0x22, CHR '':'', CHR '' ''])
        @ str_int (max_new_tokens r)
        @ CHR '','' # ('' '' @ CHR 0x22 # ''temperature'' @ [CHR 0x22, CHR '':'', CHR '' ''])
        @ fr (temperature r)
        @ CHR '','' # ('' '' @ CHR 0x22 # ''top_p'' @ [CHR 0x22, CHR '':'', CHR '' ''])
        @ fr (top_p r)
        @ ''}'')"
  by (simp add: cache_params_of_def dumps_item_def encode_basestring_ascii_def escape_char_def
        less_eq_char_def less_char_def)

lemma params_text_inj:
  assumes eq: "p0 @ b1 @ p1 @ n1 @ CHR '','' # p2 @ f1 @ CHR '','' # p3 @ g1 @ s
             = p0 @ b2 @ p1 @ n2 @ CHR '','' # p2 @ f2 @ CHR '','' # p3 @ g2 @ s"
    and b: "b1 = ''true'' \<or> b1 = ''false''" "b2 = ''true'' \<or> b2 = ''false''"
    and n: "CHR '','' \<notin> set n1" "CHR '','' \<notin> set n2"
    and f: "CHR '','' \<notin> set f1" "CHR '','' \<notin> set f2"
  shows "b1 = b2 \<and> n1 = n2 \<and> f1 = f2 \<and> g1 = g2"
proof -
  define t1 where "t1 = p1 @ n1 @ CHR '','' # p2 @ f1 @ CHR '','' # p3 @ g1 @ s"
  define t2 where "t2 = p1 @ n2 @ CHR '','' # p2 @ f2 @ CHR '','' # p3 @ g2 @ s"
  from eq have "b1 @ t1 = b2 @ t2"
    by (simp add: t1_def t2_def)
  with b have bb: "b1 = b2" by auto
  with \<open>b1 @ t1 = b2 @ t2\<close> have "t1 = t2" by simp
  then have "n1 @ CHR '','' # (p2 @ f1 @ CHR '','' # p3 @ g1 @ s)
           = n2 @ CHR '','' # (p2 @ f2 @ CHR '','' # p3 @ g2 @ s)"
    by (simp add: t1_def t2_def)
  from first_delimiter [OF n this]
  have nn: "n1 = n2" and "f1 @ CHR '','' # (p3 @ g1 @ s) = f2 @ CHR '','' # (p3 @ g2 @ s)"
    by simp_all
  from first_delimiter [OF f this(2)]
  have "f1 = f2" and "g1 = g2" by simp_all
  with bb nn show ?thesis by simp
qed

lemma cache_data_inj:
  assumes plain: "plain_repr (float_repr lib) {temperature r, top_p r, temperature r', top_p r'}"
    and eq: "cache_data lib T (cache_params_of r) = cache_data lib T' (cache_params_of r')"
  shows "T = T' \<and> max_new_tokens r = max_new_tokens r' \<and> temperature r = temperature r'
       \<and> top_p r = top_p r' \<and> do_sample r = do_sample r'"
proof -
  let ?fr = "float_repr lib"
  define R where "R =
       (CHR 0x22 # ''do_sample'' @ [CHR 0x22, CHR '':'', CHR '' ''])
        @ (if do_sample r then ''true'' else ''false'')
        @ ('', '' @ CHR 0x22 # ''max_new_tokens'' @ [CHR 0x22, CHR '':'', CHR '' ''])
        @ str_int (max_new_tokens r)
        @ CHR '','' # ('' '' @ CHR 0x22 # ''temperature'' @ [CHR 0x22, CHR '':'', CHR '' ''])
        @ ?fr (temperature r)
        @ CHR '','' # ('' '' @ CHR 0x22 # ''top_p'' @ [CHR 0x22, CHR '':'', CHR '' ''])
        @ ?fr (top_p r)
        @ ''}''"
  define R' where "R' =
       (CHR 0x22 # ''do_sample'' @ [CHR 0x22, CHR '':'', CHR '' ''])
        @ (if do_sample r' then ''true'' else ''false'')
        @ ('', '' @ CHR 0x22 # ''max_new_tokens'' @ [CHR 0x22, CHR '':'', CHR '' ''])
        @ str_int (max_new_tokens r')
        @ CHR '','' # ('' '' @ CHR 0x22 # ''temperature'' @ [CHR 0x22, CHR '':'', CHR '' ''])
        @ ?fr (temperature r')
        @ CHR '','' # ('' '' @ CHR 0x22 # ''top_p'' @ [CHR 0x22, CHR '':'', CHR '' ''])
        @ ?fr (top_p r')
        @ ''}''"
  have J: "json_dumps ?fr True (JObj (cache_params_of r)) = CHR ''{'' # R"
    "json_dumps ?fr True (JObj (cache_params_of r')) = CHR ''{'' # R'"
    unfolding R_def R'_def by (rule dumps_cache_params)+
  from plain have fl:
    "CHR '','' \<notin> set (?fr (temperature r))" "CHR '','' \<notin> set (?fr (temperature r'))"
    "CHR ''{'' \<notin> set (?fr (temperature r))" "CHR ''{'' \<notin> set (?fr (temperature r'))"
    "CHR ''{'' \<notin> set (?fr (top_p r))" "CHR ''{'' \<notin> set (?fr (top_p r'))"
    by (simp_all add: plain_repr_def)
  have nb: "CHR ''{'' \<notin> set R" "CHR ''{'' \<notin> set R'"
    by (simp_all add: R_def R'_def fl str_int_plain)
  from eq have "(T @ '':'') @ CHR ''{'' # R = (T' @ '':'') @ CHR ''{'' # R'"
    unfolding cache_data_def J by simp
  from last_delimiter [OF nb this] have T: "T = T'" and RR: "R = R'"
    by simp_all
  have "(if do_sample r then ''true'' else ''false'') = (if do_sample r' then ''true'' else ''false'')
      \<and> str_int (max_new_tokens r) = str_int (max_new_tokens r')
      \<and> ?fr (temperature r) = ?fr (temperature r')
      \<and> ?fr (top_p r) = ?fr (top_p r')"
  proof (rule params_text_inj)
    show "(CHR 0x22 # ''do_sample'' @ [CHR 0x22, CHR '':'', CHR '' ''])
        @ (if do_sample r then ''true'' else ''false'')
        @ ('', '' @ CHR 0x22 # ''max_new_tokens'' @ [CHR 0x22, CHR '':'', CHR '' ''])
        @ str_int (max_new_tokens r)
        @ CHR '','' # ('' '' @ CHR 0x22 # ''temperature'' @ [CHR 0x22, CHR '':'', CHR '' ''])
        @ ?fr (temperature r)
        @ CHR '','' # ('' '' @ CHR 0x22 # ''top_p'' @ [CHR 0x22, CHR '':'', CHR '' ''])
        @ ?fr (top_p r)
        @ ''}''
      = (CHR 0x22 # ''do_sample'' @ [CHR 0x22, CHR '':'', CHR '' ''])
        @ (if do_sample r' then ''true'' else ''false'')
        @ ('', '' @ CHR 0x22 # ''max_new_tokens'' @ [CHR 0x22, CHR '':'', CHR '' ''])
        @ str_int (max_new_tokens r')
        @ CHR '','' # ('' '' @ CHR 0x22 # ''temperature'' @ [CHR 0x22, CHR '':'', CHR '' ''])
        @ ?fr (temperature r')
        @ CHR '','' # ('' '' @ CHR 0x22 # ''top_p'' @ [CHR 0x22, CHR '':'', CHR '' ''])
        @ ?fr (top_p r')
        @ ''}''"
      using RR unfolding R_def R'_def .
  qed (simp_all add: fl str_int_plain)
  then have ds: "do_sample r = do_sample r'"
    and n: "max_new_tokens r = max_new_tokens r'"
    and t: "?fr (temperature r) = ?fr (temperature r')"
    and tp: "?fr (top_p r) = ?fr (top_p r')"
    by (auto split: if_splits dest: str_int_inj)
  from plain have inj: "inj_on ?fr {temperature r, top_p r, temperature r', top_p r'}"
    by (simp add: plain_repr_def)
  from inj t have "temperature r = temperature r'"
    by (rule inj_onD) simp_all
  moreover from inj tp have "top_p r = top_p r'"
    by (rule inj_onD) simp_all
  ultimately show ?thesis
    using T ds n by simp
qed

text \<open>
  C5. The text that is hashed (prompt, colon, parameters with sorted keys) determines
  the prompt and the four parameters: two requests have the same text exactly when
  they agree on the prompt, \<^verbatim>\<open>max_new_tokens\<close>, \<^verbatim>\<open>temperature\<close>, \<^verbatim>\<open>top_p\<close> and
  \<^verbatim>\<open>do_sample\<close>. Two keys are equal exactly when the digests of the two texts are, so
  requests that differ in one of the five have the same key only by a collision of the
  digest; with a digest taken as collision-free their keys differ.
\<close>

theorem distinct_requests_distinct_keys:
  assumes "plain_repr (float_repr lib) {temperature r, top_p r, temperature r', top_p r'}"
  shows "(cache_data lib (GenerationRequest.prompt r) (cache_params_of r)
            = cache_data lib (GenerationRequest.prompt r') (cache_params_of r')
          \<longleftrightarrow> GenerationRequest.prompt r = GenerationRequest.prompt r'
              \<and> max_new_tokens r = max_new_tokens r' \<and> temperature r = temperature r'
              \<and> top_p r = top_p r' \<and> do_sample r = do_sample r')
       \<and> (get_cache_key lib (GenerationRequest.prompt r) (cache_params_of r)
            = get_cache_key lib (GenerationRequest.prompt r') (cache_params_of r')
          \<longleftrightarrow> md5_hexdigest lib (cache_data lib (GenerationRequest.prompt r) (cache_params_of r))
              = md5_hexdigest lib (cache_data lib (GenerationRequest.prompt r') (cache_params_of r')))
       \<and> (inj (md5_hexdigest lib)
            \<and> (GenerationRequest.prompt r \<noteq> GenerationRequest.prompt r'
                \<or> max_new_tokens r \<noteq> max_new_tokens r' \<or> temperature r \<noteq> temperature r'
                \<or> top_p r \<noteq> top_p r' \<or> do_sample r \<noteq> do_sample r') \<longrightarrow>
          get_cache_key lib (GenerationRequest.prompt r) (cache_params_of r)
            \<noteq> get_cache_key lib (GenerationRequest.prompt r') (cache_params_of r'))"
proof -
  let ?c = "cache_data lib (GenerationRequest.prompt r) (cache_params_of r)"
  let ?c' = "cache_data lib (GenerationRequest.prompt r') (cache_params_of r')"
  let ?same = "GenerationRequest.prompt r = GenerationRequest.prompt r'
              \<and> max_new_tokens r = max_new_tokens r' \<and> temperature r = temperature r'
              \<and> top_p r = top_p r' \<and> do_sample r = do_sample r'"
  have 1: "?c = ?c' \<longleftrightarrow> ?same"
  proof
    assume "?c = ?c'"
    with assms show ?same by (rule cache_data_inj)
  next
    assume ?same
    then have "cache_params_of r = cache_params_of r'"
      by (simp add: cache_params_of_def)
    with \<open>?same\<close> show "?c = ?c'" by simp
  qed
  have 2: "get_cache_key lib (GenerationRequest.prompt r) (cache_params_of r)
            = get_cache_key lib (GenerationRequest.prompt r') (cache_params_of r')
          \<longleftrightarrow> md5_hexdigest lib ?c = md5_hexdigest lib ?c'"
    by (simp add: get_cache_key_def)
  have 3: "inj (md5_hexdigest lib) \<and> \<not> ?same \<longrightarrow>
          get_cache_key lib (GenerationRequest.prompt r) (cache_params_of r)
            \<noteq> get_cache_key lib (GenerationRequest.prompt r') (cache_params_of r')"
    unfolding 2 using 1 by (auto dest: injD)
  from 1 2 3 show ?thesis by blast
qed

theorem distinct_requests_distinct_keys_witness:
  "plain_repr (float_repr example_library)
     {temperature example_request, top_p example_request,
      temperature (example_request\<lparr>temperature := 1.5\<rparr>),
      top_p (example_request\<lparr>temperature := 1.5\<rparr>)}
   \<and> inj (md5_hexdigest example_library)
   \<and> temperature example_request \<noteq> temperature (example_request\<lparr>temperature := 1.5\<rparr>)
   \<and> get_cache_key example_library (GenerationRequest.prompt example_request)
         (cache_params_of example_request)
       \<noteq> get_cache_key example_library
           (GenerationRequest.prompt (example_request\<lparr>temperature := 1.5\<rparr>))
           (cache_params_of (example_request\<lparr>temperature := 1.5\<rparr>))"
proof -
  have p: "plain_repr (float_repr example_library)
     {temperature example_request, top_p example_request,
      temperature (example_request\<lparr>temperature := 1.5\<rparr>),
      top_p (example_request\<lparr>temperature := 1.5\<rparr>)}"
    by (auto simp: plain_repr_def inj_on_def example_library_def example_request_def
          split: if_splits)
  have i: "inj (md5_hexdigest example_library)"
    by (simp add: example_library_def inj_def)
  have d: "temperature example_request \<noteq> temperature (example_request\<lparr>temperature := 1.5\<rparr>)"
    by (simp add: example_request_def)
  from distinct_requests_distinct_keys [OF p] i d p show ?thesis
    by blast
qed

end
